theory Spec2Isabelle
  imports Complex_Main "HOL-Library.Word"
begin

section \<open>JavaScript numbers\<close>

text \<open>
  Every numeric value of the program is a JavaScript \<^verbatim>\<open>number\<close>. The model keeps the
  values a computation can reach: a real number, \<^verbatim>\<open>NaN\<close> and the two infinities. A
  division by zero therefore stays visible (\<^verbatim>\<open>0/0\<close> is \<^verbatim>\<open>NaN\<close>, it is not the \<open>0\<close> of
  HOL's total division). Arithmetic on the finite values is exact: rounding to binary64,
  overflow, and the sign of zero are not represented (a zero divisor is taken as
  \<^verbatim>\<open>+0\<close>). The rounding of a value stored in a \<^verbatim>\<open>Float32Array\<close> is \<open>Math_fround\<close> below;
  the sphere builder, whose stored alpha a statement is about, writes it out, and the
  other stores are written without it.
\<close>

datatype number = Num real | NaN | PosInfinity | NegInfinity

fun js_add :: "number \<Rightarrow> number \<Rightarrow> number" where
  "js_add (Num a) (Num b) = Num (a + b)"
| "js_add NaN _ = NaN"
| "js_add _ NaN = NaN"
| "js_add PosInfinity NegInfinity = NaN"
| "js_add NegInfinity PosInfinity = NaN"
| "js_add PosInfinity _ = PosInfinity"
| "js_add _ PosInfinity = PosInfinity"
| "js_add NegInfinity _ = NegInfinity"
| "js_add _ NegInfinity = NegInfinity"

fun js_neg :: "number \<Rightarrow> number" where
  "js_neg (Num a) = Num (- a)"
| "js_neg NaN = NaN"
| "js_neg PosInfinity = NegInfinity"
| "js_neg NegInfinity = PosInfinity"

fun js_mul :: "number \<Rightarrow> number \<Rightarrow> number" where
  "js_mul (Num a) (Num b) = Num (a * b)"
| "js_mul NaN _ = NaN"
| "js_mul _ NaN = NaN"
| "js_mul PosInfinity (Num b) =
     (if b = 0 then NaN else if 0 < b then PosInfinity else NegInfinity)"
| "js_mul NegInfinity (Num b) =
     (if b = 0 then NaN else if 0 < b then NegInfinity else PosInfinity)"
| "js_mul (Num a) PosInfinity =
     (if a = 0 then NaN else if 0 < a then PosInfinity else NegInfinity)"
| "js_mul (Num a) NegInfinity =
     (if a = 0 then NaN else if 0 < a then NegInfinity else PosInfinity)"
| "js_mul PosInfinity PosInfinity = PosInfinity"
| "js_mul PosInfinity NegInfinity = NegInfinity"
| "js_mul NegInfinity PosInfinity = NegInfinity"
| "js_mul NegInfinity NegInfinity = PosInfinity"

fun js_div :: "number \<Rightarrow> number \<Rightarrow> number" where
  "js_div (Num a) (Num b) =
     (if b \<noteq> 0 then Num (a / b)
      else if a = 0 then NaN
      else if 0 < a then PosInfinity else NegInfinity)"
| "js_div NaN _ = NaN"
| "js_div _ NaN = NaN"
| "js_div (Num a) PosInfinity = Num 0"
| "js_div (Num a) NegInfinity = Num 0"
| "js_div PosInfinity (Num b) = (if 0 \<le> b then PosInfinity else NegInfinity)"
| "js_div NegInfinity (Num b) = (if 0 \<le> b then NegInfinity else PosInfinity)"
| "js_div PosInfinity PosInfinity = NaN"
| "js_div PosInfinity NegInfinity = NaN"
| "js_div NegInfinity PosInfinity = NaN"
| "js_div NegInfinity NegInfinity = NaN"

fun js_lt :: "number \<Rightarrow> number \<Rightarrow> bool" where
  "js_lt (Num a) (Num b) = (a < b)"
| "js_lt NaN _ = False"
| "js_lt _ NaN = False"
| "js_lt PosInfinity _ = False"
| "js_lt _ NegInfinity = False"
| "js_lt _ PosInfinity = True"
| "js_lt NegInfinity _ = True"

fun js_le :: "number \<Rightarrow> number \<Rightarrow> bool" where
  "js_le (Num a) (Num b) = (a \<le> b)"
| "js_le NaN _ = False"
| "js_le _ NaN = False"
| "js_le _ PosInfinity = True"
| "js_le NegInfinity _ = True"
| "js_le PosInfinity _ = False"
| "js_le _ NegInfinity = False"

text \<open>The operators \<open>+\<close>, \<open>-\<close>, \<open>*\<close>, \<open>/\<close>, \<open><\<close> and \<open>\<le>\<close> on \<^typ>\<open>number\<close> are the ones above.\<close>

instantiation number :: "{plus, uminus, minus, times, inverse, ord}"
begin

definition plus_number :: "number \<Rightarrow> number \<Rightarrow> number" where
  "plus_number a b = js_add a b"

definition uminus_number :: "number \<Rightarrow> number" where
  "uminus_number a = js_neg a"

definition minus_number :: "number \<Rightarrow> number \<Rightarrow> number" where
  "minus_number a b = js_add a (js_neg b)"

definition times_number :: "number \<Rightarrow> number \<Rightarrow> number" where
  "times_number a b = js_mul a b"

definition divide_number :: "number \<Rightarrow> number \<Rightarrow> number" where
  "divide_number a b = js_div a b"

definition inverse_number :: "number \<Rightarrow> number" where
  "inverse_number a = js_div (Num 1) a"

definition less_number :: "number \<Rightarrow> number \<Rightarrow> bool" where
  "less_number a b = js_lt a b"

definition less_eq_number :: "number \<Rightarrow> number \<Rightarrow> bool" where
  "less_eq_number a b = js_le a b"

instance ..

end

text \<open>\<^verbatim>\<open>a === b\<close>: \<^verbatim>\<open>NaN\<close> is equal to nothing, itself included.\<close>

definition strict_eq :: "number \<Rightarrow> number \<Rightarrow> bool" where
  "strict_eq a b = (a \<noteq> NaN \<and> b \<noteq> NaN \<and> a = b)"

fun Math_sqrt :: "number \<Rightarrow> number" where
  "Math_sqrt (Num a) = (if a < 0 then NaN else Num (sqrt a))"
| "Math_sqrt NaN = NaN"
| "Math_sqrt PosInfinity = PosInfinity"
| "Math_sqrt NegInfinity = NaN"

fun Math_sin :: "number \<Rightarrow> number" where
  "Math_sin (Num a) = Num (sin a)"
| "Math_sin _ = NaN"

fun Math_cos :: "number \<Rightarrow> number" where
  "Math_cos (Num a) = Num (cos a)"
| "Math_cos _ = NaN"

text \<open>The tangent is the quotient of sine and cosine, so that a pole is not HOL's \<open>0\<close>.\<close>

definition Math_tan :: "number \<Rightarrow> number" where
  "Math_tan a = Math_sin a / Math_cos a"

definition Math_PI :: number where
  "Math_PI = Num pi"

fun Math_floor :: "number \<Rightarrow> number" where
  "Math_floor (Num a) = Num (of_int \<lfloor>a\<rfloor>)"
| "Math_floor NaN = NaN"
| "Math_floor PosInfinity = PosInfinity"
| "Math_floor NegInfinity = NegInfinity"

text \<open>\<^verbatim>\<open>Math.max(a, b)\<close> is \<^verbatim>\<open>NaN\<close> as soon as one argument is.\<close>

definition Math_max :: "number \<Rightarrow> number \<Rightarrow> number" where
  "Math_max a b = (if a = NaN \<or> b = NaN then NaN else if a < b then b else a)"

text \<open>
  \<^verbatim>\<open>Math.fround\<close>, the value a \<^verbatim>\<open>Float32Array\<close> element holds after a store: the nearest
  number with a 24-bit significand (ties to the even one), in steps of \<^verbatim>\<open>2^-149\<close> below
  \<^verbatim>\<open>2^-126\<close>, and an infinity from \<^verbatim>\<open>2^128\<close> on.
\<close>

definition round_half_even :: "real \<Rightarrow> int" where
  "round_half_even r =
     (let f = \<lfloor>r\<rfloor>
      in if r - of_int f < 1 / 2 then f
         else if 1 / 2 < r - of_int f then f + 1
         else if even f then f else f + 1)"

fun Math_fround :: "number \<Rightarrow> number" where
  "Math_fround (Num a) =
     (if a = 0 then Num 0
      else
        (let e = max \<lfloor>log 2 \<bar>a\<bar>\<rfloor> (- 126);
             ulp = 2 powr (of_int e - 23);
             m = of_int (round_half_even (a / ulp)) * ulp
         in if 2 ^ 128 \<le> \<bar>m\<bar> then (if 0 < a then PosInfinity else NegInfinity)
            else Num m))"
| "Math_fround NaN = NaN"
| "Math_fround PosInfinity = PosInfinity"
| "Math_fround NegInfinity = NegInfinity"

section \<open>types.ts\<close>

record Vec3 =
  x :: number
  y :: number
  z :: number

record Vec4 = Vec3 +
  w :: number

text \<open>
  A \<^verbatim>\<open>Float32Array\<close> is the list of its elements. A read past the end gives
  \<^verbatim>\<open>undefined\<close>, which arithmetic turns into \<^verbatim>\<open>NaN\<close>.
\<close>

type_synonym Float32Array = "number list"

definition new_Float32Array :: "nat \<Rightarrow> Float32Array" where
  "new_Float32Array n = replicate n (Num 0)"

definition get :: "Float32Array \<Rightarrow> nat \<Rightarrow> number" where
  "get a i = (if i < length a then a ! i else NaN)"

section \<open>utils/math.ts\<close>

definition createIdentityMatrix :: Float32Array where
  "createIdentityMatrix =
     (new_Float32Array 16)[0 := Num 1, 5 := Num 1, 10 := Num 1, 15 := Num 1]"

definition createProjectionMatrix ::
  "number \<Rightarrow> number \<Rightarrow> number \<Rightarrow> number \<Rightarrow> Float32Array" where
  "createProjectionMatrix fov aspect near far =
     (let f = Num 1 / Math_tan (fov / Num 2);
          nf = Num 1 / (near - far)
      in (new_Float32Array 16)
           [0 := f / aspect,
            5 := f,
            10 := (far + near) * nf,
            11 := Num (- 1),
            14 := Num 2 * far * near * nf,
            15 := Num 0])"

definition crossProduct :: "Vec3 \<Rightarrow> Vec3 \<Rightarrow> Vec3" where
  "crossProduct a b =
     \<lparr> x = y a * z b - z a * y b,
       y = z a * x b - x a * z b,
       z = x a * y b - y a * x b \<rparr>"

definition dotProduct :: "Vec3 \<Rightarrow> Vec3 \<Rightarrow> number" where
  "dotProduct a b = x a * x b + y a * y b + z a * z b"

definition normalizeVector :: "Vec3 \<Rightarrow> Vec3" where
  "normalizeVector v =
     (let length = Math_sqrt (x v * x v + y v * y v + z v * z v)
      in if strict_eq length (Num 0) then \<lparr> x = Num 0, y = Num 0, z = Num 0 \<rparr>
         else \<lparr> x = x v / length, y = y v / length, z = z v / length \<rparr>)"

definition createViewMatrix :: "Vec3 \<Rightarrow> Vec3 \<Rightarrow> Vec3 \<Rightarrow> Float32Array" where
  "createViewMatrix position target up =
     (let zAxis = normalizeVector
            \<lparr> x = x position - x target,
              y = y position - y target,
              z = z position - z target \<rparr>;
          xAxis = normalizeVector (crossProduct up zAxis);
          yAxis = normalizeVector (crossProduct zAxis xAxis)
      in (new_Float32Array 16)
           [0 := x xAxis, 1 := x yAxis, 2 := x zAxis, 3 := Num 0,
            4 := y xAxis, 5 := y yAxis, 6 := y zAxis, 7 := Num 0,
            8 := z xAxis, 9 := z yAxis, 10 := z zAxis, 11 := Num 0,
            12 := - dotProduct xAxis position,
            13 := - dotProduct yAxis position,
            14 := - dotProduct zAxis position,
            15 := Num 1])"

text \<open>The default \<^verbatim>\<open>up\<close> argument of \<^verbatim>\<open>createViewMatrix\<close>, which its only caller leaves out.\<close>

definition default_up :: Vec3 where
  "default_up = \<lparr> x = Num 0, y = Num 1, z = Num 0 \<rparr>"

definition createRotationYMatrix :: "number \<Rightarrow> Float32Array" where
  "createRotationYMatrix angle =
     (let c = Math_cos angle; s = Math_sin angle
      in createIdentityMatrix[0 := c, 2 := - s, 8 := s, 10 := c])"

definition createRotationXMatrix :: "number \<Rightarrow> Float32Array" where
  "createRotationXMatrix angle =
     (let c = Math_cos angle; s = Math_sin angle
      in createIdentityMatrix[5 := c, 6 := s, 9 := - s, 10 := c])"

definition createRotationZMatrix :: "number \<Rightarrow> Float32Array" where
  "createRotationZMatrix angle =
     (let c = Math_cos angle; s = Math_sin angle
      in createIdentityMatrix[0 := c, 1 := s, 4 := - s, 5 := c])"

text \<open>
  \<^verbatim>\<open>multiplyMatrices\<close>: the three nested loops over \<open>i\<close>, \<open>j\<close> and \<open>k\<close>, each from
  0 to 3; the innermost one accumulates \<^verbatim>\<open>sum\<close> from 0.
\<close>

definition multiplyMatrices :: "Float32Array \<Rightarrow> Float32Array \<Rightarrow> Float32Array" where
  "multiplyMatrices a b =
     fold (\<lambda>i result.
       fold (\<lambda>j result.
         result[i * 4 + j :=
           fold (\<lambda>k sum. sum + get a (i * 4 + k) * get b (k * 4 + j)) [0..<4] (Num 0)])
         [0..<4] result)
       [0..<4] (new_Float32Array 16)"

definition createRotationMatrix :: "number \<Rightarrow> number \<Rightarrow> number \<Rightarrow> Float32Array" where
  "createRotationMatrix rx_angle ry_angle rz_angle =
     (let rx = createRotationXMatrix rx_angle;
          ry = createRotationYMatrix ry_angle;
          rz = createRotationZMatrix rz_angle;
          temp = multiplyMatrices ry rz
      in multiplyMatrices rx temp)"

section \<open>geometry/BoxGeometry.ts\<close>

text \<open>
  An \<^verbatim>\<open>ObjectGeometry\<close> holds three device buffers, each written once when it is built and
  never again: the record holds what was written. The index data is a \<^verbatim>\<open>Uint16Array\<close>.
\<close>

record ObjectGeometry =
  vertexBuffer :: Float32Array
  colorBuffer :: Float32Array
  indexBuffer :: "16 word list"
  indexCount :: nat

definition BoxGeometry_create ::
  "number \<Rightarrow> number \<Rightarrow> number \<Rightarrow> Vec4 \<Rightarrow> Vec3 \<Rightarrow> ObjectGeometry" where
  "BoxGeometry_create width height depth color position =
     (let x0 = x position - width / Num 2;
          x1 = x position + width / Num 2;
          y0 = y position - height / Num 2;
          y1 = y position + height / Num 2;
          z0 = z position - depth / Num 2;
          z1 = z position + depth / Num 2;
          vertices =
            [x0, y0, z1,  x1, y0, z1,  x1, y1, z1,  x0, y1, z1,
             x0, y0, z0,  x1, y0, z0,  x1, y1, z0,  x0, y1, z0,
             x0, y1, z0,  x1, y1, z0,  x1, y1, z1,  x0, y1, z1,
             x0, y0, z0,  x1, y0, z0,  x1, y0, z1,  x0, y0, z1,
             x1, y0, z0,  x1, y1, z0,  x1, y1, z1,  x1, y0, z1,
             x0, y0, z0,  x0, y1, z0,  x0, y1, z1,  x0, y0, z1];
          colors =
            [x color, y color, z color, w color,  x color, y color, z color, w color,
             x color, y color, z color, w color,  x color, y color, z color, w color,
             y color, x color, z color, w color,  y color, x color, z color, w color,
             y color, x color, z color, w color,  y color, x color, z color, w color,
             z color, x color, y color, w color,  z color, x color, y color, w color,
             z color, x color, y color, w color,  z color, x color, y color, w color,
             x color, y color, Num 0, w color,  x color, y color, Num 0, w color,
             x color, y color, Num 0, w color,  x color, y color, Num 0, w color,
             Num 0, y color, z color, w color,  Num 0, y color, z color, w color,
             Num 0, y color, z color, w color,  Num 0, y color, z color, w color,
             x color, Num 0, z color, w color,  x color, Num 0, z color, w color,
             x color, Num 0, z color, w color,  x color, Num 0, z color, w color];
          indices =
            [0, 1, 2, 0, 2, 3,
             4, 6, 5, 4, 7, 6,
             8, 9, 10, 8, 10, 11,
             12, 14, 13, 12, 15, 14,
             16, 18, 17, 16, 19, 18,
             20, 21, 22, 20, 22, 23]
      in \<lparr> vertexBuffer = vertices, colorBuffer = colors, indexBuffer = indices,
           indexCount = length indices \<rparr>)"

definition BoxGeometry_createQuad :: "number \<Rightarrow> number \<Rightarrow> Vec4 \<Rightarrow> Vec3 \<Rightarrow> ObjectGeometry" where
  "BoxGeometry_createQuad width height color position =
     (let halfWidth = width / Num 2;
          halfHeight = height / Num 2;
          x0 = x position - halfWidth;
          x1 = x position + halfWidth;
          y0 = y position - halfHeight;
          y1 = y position + halfHeight;
          z = z position;
          vertices = [x0, y0, z,  x1, y0, z,  x1, y1, z,  x0, y1, z];
          colors =
            [x color, y color, Vec3.z color, w color,  x color, y color, Vec3.z color, w color,
             x color, y color, Vec3.z color, w color,  x color, y color, Vec3.z color, w color];
          indices = [0, 1, 2, 0, 2, 3]
      in \<lparr> vertexBuffer = vertices, colorBuffer = colors, indexBuffer = indices,
           indexCount = length indices \<rparr>)"

section \<open>geometry/SphereGeometry.ts\<close>

text \<open>
  The loops of the builder count \<open>i\<close> up from 0 against a bound that is a number: the
  clamped segment count, which is \<^verbatim>\<open>NaN\<close> when the raw count is and \<^verbatim>\<open>Infinity\<close> when the
  raw count is. \<open>loop_le b\<close> are the values \<open>i\<close> takes in
  \<^verbatim>\<open>for (i = 0; i <= b; i++)\<close>, and \<open>loop_lt b\<close> those in \<^verbatim>\<open>for (i = 0; i < b; i++)\<close>:
  none when the first test fails, as every comparison with \<^verbatim>\<open>NaN\<close> does, and \<open>None\<close> when
  the test never fails. \<open>for_loop\<close> runs a body over them; \<open>None\<close> is a loop, or a body,
  that does not return.
\<close>

fun loop_le :: "number \<Rightarrow> nat list option" where
  "loop_le (Num b) = Some [0..<nat (\<lfloor>b\<rfloor> + 1)]"
| "loop_le PosInfinity = None"
| "loop_le _ = Some []"

fun loop_lt :: "number \<Rightarrow> nat list option" where
  "loop_lt (Num b) = Some [0..<nat \<lceil>b\<rceil>]"
| "loop_lt PosInfinity = None"
| "loop_lt _ = Some []"

definition for_loop :: "nat list option \<Rightarrow> (nat \<Rightarrow> 's \<Rightarrow> 's option) \<Rightarrow> 's \<Rightarrow> 's option" where
  "for_loop counter body s =
     (case counter of
        None \<Rightarrow> None
      | Some values \<Rightarrow> fold (\<lambda>i acc. Option.bind acc (body i)) values (Some s))"

text \<open>The body of the inner vertex loop: the three coordinates pushed for \<open>(iy, ix)\<close>.\<close>

definition sphere_vertex ::
  "number \<Rightarrow> Vec3 \<Rightarrow> number \<Rightarrow> number \<Rightarrow> nat \<Rightarrow> nat \<Rightarrow> number list" where
  "sphere_vertex radius position widthSegments heightSegments iy ix =
     (let v = Num (real iy) / heightSegments;
          u = Num (real ix) / widthSegments;
          phi = u * Math_PI * Num 2;
          theta = v * Math_PI;
          sinTheta = Math_sin theta;
          cosTheta = Math_cos theta;
          sinPhi = Math_sin phi;
          cosPhi = Math_cos phi;
          nx = cosPhi * sinTheta;
          ny = cosTheta;
          nz = sinPhi * sinTheta
      in [x position + radius * nx, y position + radius * ny, z position + radius * nz])"

text \<open>
  The vertex loops. The state is the pair of \<^verbatim>\<open>vertices\<close> and \<^verbatim>\<open>grid\<close>; the inner loop
  carries \<^verbatim>\<open>vertices\<close> and the current \<^verbatim>\<open>row\<close>. \<^verbatim>\<open>vertices.length / 3 - 1\<close> is taken
  after a push, on a length that is a positive multiple of 3.
\<close>

definition sphere_row ::
  "number \<Rightarrow> Vec3 \<Rightarrow> number \<Rightarrow> number \<Rightarrow> nat \<Rightarrow> number list
     \<Rightarrow> (number list \<times> nat list) option" where
  "sphere_row radius position widthSegments heightSegments iy vertices =
     for_loop (loop_le widthSegments)
       (\<lambda>ix (vertices, row).
         (let vertices = vertices @ sphere_vertex radius position widthSegments heightSegments iy ix
          in Some (vertices, row @ [length vertices div 3 - 1])))
       (vertices, [])"

definition sphere_vertices ::
  "number \<Rightarrow> Vec3 \<Rightarrow> number \<Rightarrow> number \<Rightarrow> (number list \<times> nat list list) option" where
  "sphere_vertices radius position widthSegments heightSegments =
     for_loop (loop_le heightSegments)
       (\<lambda>iy (vertices, grid).
         (case sphere_row radius position widthSegments heightSegments iy vertices of
            None \<Rightarrow> None
          | Some (vertices, row) \<Rightarrow> Some (vertices, grid @ [row])))
       ([], [])"

text \<open>The index loops; \<^verbatim>\<open>indices\<close> is the state.\<close>

definition sphere_indices :: "nat list list \<Rightarrow> number \<Rightarrow> number \<Rightarrow> nat list option" where
  "sphere_indices grid widthSegments heightSegments =
     for_loop (loop_lt heightSegments)
       (\<lambda>iy indices.
         for_loop (loop_lt widthSegments)
           (\<lambda>ix indices.
             (let a = grid ! iy ! (ix + 1);
                  b = grid ! iy ! ix;
                  c = grid ! (iy + 1) ! ix;
                  d = grid ! (iy + 1) ! (ix + 1);
                  indices = (if iy \<noteq> 0 then indices @ [a, b, d] else indices);
                  indices = (if \<not> strict_eq (Num (real iy)) (heightSegments - Num 1)
                             then indices @ [b, c, d] else indices)
              in Some indices))
           indices)
       []"

text \<open>
  The colour loop: the vertical position of vertex \<open>i\<close>, read from the plain array
  \<^verbatim>\<open>vertices\<close>, and the four writes for it into the \<^verbatim>\<open>Float32Array\<close>, each of which rounds.
\<close>

definition normalizedY :: "number list \<Rightarrow> number \<Rightarrow> Vec3 \<Rightarrow> nat \<Rightarrow> number" where
  "normalizedY vertices radius position i =
     (get vertices (i * 3 + 1) - (y position - radius)) / (Num 2 * radius)"

definition sphere_color_step ::
  "number list \<Rightarrow> number \<Rightarrow> Vec4 \<Rightarrow> Vec3 \<Rightarrow> nat \<Rightarrow> Float32Array \<Rightarrow> Float32Array" where
  "sphere_color_step vertices radius color position i colors =
     (let nY = normalizedY vertices radius position i;
          colors =
            (if nY < Num 0.2 then
               colors[i * 4 + 0 := Math_fround (Num 0),
                      i * 4 + 1 := Math_fround (Num 0),
                      i * 4 + 2 := Math_fround (Num 0.8 + nY)]
             else if nY < Num 0.5 then
               colors[i * 4 + 0 := Math_fround (Num 0),
                      i * 4 + 1 := Math_fround (Num 0.5 + nY),
                      i * 4 + 2 := Math_fround (Num 0.5 + nY / Num 2)]
             else if nY < Num 0.8 then
               colors[i * 4 + 0 := Math_fround ((nY - Num 0.5) * Num 2),
                      i * 4 + 1 := Math_fround (Num 0.8),
                      i * 4 + 2 := Math_fround ((Num 0.8 - nY) * Num 2)]
             else
               colors[i * 4 + 0 := Math_fround (Num 1),
                      i * 4 + 1 := Math_fround ((Num 1 - nY) * Num 5),
                      i * 4 + 2 := Math_fround (Num 0)])
      in colors[i * 4 + 3 := Math_fround (w color)])"

definition sphere_colors :: "number list \<Rightarrow> number \<Rightarrow> Vec4 \<Rightarrow> Vec3 \<Rightarrow> Float32Array" where
  "sphere_colors vertices radius color position =
     fold (sphere_color_step vertices radius color position)
       [0..<length vertices div 3]
       (new_Float32Array ((length vertices div 3) * 4))"

text \<open>
  \<^verbatim>\<open>SphereGeometry.create\<close>. The result is \<open>None\<close> when a loop of the builder does not
  return, which is when a segment count that a loop is run against is \<^verbatim>\<open>Infinity\<close>. The
  arrays of the model have no limit of length or of memory.
\<close>

definition SphereGeometry_create ::
  "number \<Rightarrow> number \<Rightarrow> number \<Rightarrow> Vec4 \<Rightarrow> Vec3 \<Rightarrow> ObjectGeometry option" where
  "SphereGeometry_create radius widthSegments heightSegments color position =
     (let widthSegments = Math_max (Num 3) (Math_floor widthSegments);
          heightSegments = Math_max (Num 2) (Math_floor heightSegments)
      in case sphere_vertices radius position widthSegments heightSegments of
           None \<Rightarrow> None
         | Some (vertices, grid) \<Rightarrow>
             (case sphere_indices grid widthSegments heightSegments of
                None \<Rightarrow> None
              | Some indices \<Rightarrow>
                  (let colors = sphere_colors vertices radius color position;
                       verticesArray = map Math_fround vertices;
                       indicesArray = map of_nat indices
                   in Some \<lparr> vertexBuffer = verticesArray, colorBuffer = colors,
                             indexBuffer = indicesArray,
                             indexCount = length indicesArray \<rparr>)))"


section \<open>The WebGPU device\<close>

text \<open>
  The three uniform buffers the program allocates, each at one place that runs once, are
  named by their allocation. The device holds their contents, as 32-bit floats, and the
  command buffers submitted to its queue. Acquiring the adapter and the device can fail
  at start-up; the model begins once they are acquired.
\<close>

datatype GPUBuffer = CameraUniformBuffer | RotationTransformBuffer | IdentityTransformBuffer

datatype GPUBindGroupLayout = CameraBindGroupLayout | TransformBindGroupLayout

datatype GPUBindGroup = BindGroup GPUBindGroupLayout GPUBuffer

datatype GPURenderPipeline = StencilPipeline | ObjectPipeline | TransparentPipeline

text \<open>What a render pass has bound when a draw is recorded.\<close>

record PassState =
  pipeline :: "GPURenderPipeline option"
  stencilReference :: nat
  bindGroup0 :: "GPUBindGroup option"
  bindGroup1 :: "GPUBindGroup option"
  vertexBuffer0 :: "Float32Array option"
  vertexBuffer1 :: "Float32Array option"
  boundIndexBuffer :: "16 word list option"

text \<open>A recorded \<^verbatim>\<open>drawIndexed(n)\<close>: the bindings at that moment, and \<open>n\<close>.\<close>

type_synonym DrawCall = "PassState \<times> nat"

record GPURenderPassEncoder =
  state :: PassState
  draws :: "DrawCall list"

record GPUDevice =
  buffers :: "GPUBuffer \<Rightarrow> Float32Array"
  submitted :: "DrawCall list list"

definition new_GPUDevice :: GPUDevice where
  "new_GPUDevice = \<lparr> buffers = (\<lambda>_. []), submitted = [] \<rparr>"

text \<open>\<^verbatim>\<open>device.createBuffer({size})\<close> for the buffer allocated at the place \<open>b\<close>: zeroed.\<close>

definition createBuffer :: "GPUBuffer \<Rightarrow> nat \<Rightarrow> GPUDevice \<Rightarrow> GPUDevice" where
  "createBuffer b byteSize device =
     device\<lparr> buffers := (buffers device)(b := new_Float32Array (byteSize div 4)) \<rparr>"

text \<open>
  \<^verbatim>\<open>device.queue.writeBuffer(buffer, bufferOffset, data, dataOffset, size)\<close>: the offset
  into the buffer is in bytes, the offset into \<^verbatim>\<open>data\<close> and the size are in elements. A
  write that does not fit is a validation error and writes nothing.
\<close>

definition writeBuffer ::
  "GPUBuffer \<Rightarrow> nat \<Rightarrow> Float32Array \<Rightarrow> nat \<Rightarrow> nat \<Rightarrow> GPUDevice \<Rightarrow> GPUDevice" where
  "writeBuffer b bufferOffset src dataOffset n device =
     (let dst = buffers device b;
          start = bufferOffset div 4
      in if bufferOffset mod 4 = 0 \<and> dataOffset + n \<le> length src \<and> start + n \<le> length dst
         then device\<lparr> buffers := (buffers device)
                (b := take start dst @ take n (drop dataOffset src) @ drop (start + n) dst) \<rparr>
         else device)"

definition setPipeline :: "GPURenderPipeline \<Rightarrow> GPURenderPassEncoder \<Rightarrow> GPURenderPassEncoder" where
  "setPipeline p renderPass = renderPass\<lparr> state := (state renderPass)\<lparr> pipeline := Some p \<rparr> \<rparr>"

definition setStencilReference :: "nat \<Rightarrow> GPURenderPassEncoder \<Rightarrow> GPURenderPassEncoder" where
  "setStencilReference r renderPass =
     renderPass\<lparr> state := (state renderPass)\<lparr> stencilReference := r \<rparr> \<rparr>"

definition setBindGroup :: "nat \<Rightarrow> GPUBindGroup \<Rightarrow> GPURenderPassEncoder \<Rightarrow> GPURenderPassEncoder" where
  "setBindGroup slot g renderPass =
     (if slot = 0 then renderPass\<lparr> state := (state renderPass)\<lparr> bindGroup0 := Some g \<rparr> \<rparr>
      else if slot = 1 then renderPass\<lparr> state := (state renderPass)\<lparr> bindGroup1 := Some g \<rparr> \<rparr>
      else renderPass)"

definition setVertexBuffer :: "nat \<Rightarrow> Float32Array \<Rightarrow> GPURenderPassEncoder \<Rightarrow> GPURenderPassEncoder" where
  "setVertexBuffer slot b renderPass =
     (if slot = 0 then renderPass\<lparr> state := (state renderPass)\<lparr> vertexBuffer0 := Some b \<rparr> \<rparr>
      else if slot = 1 then renderPass\<lparr> state := (state renderPass)\<lparr> vertexBuffer1 := Some b \<rparr> \<rparr>
      else renderPass)"

definition setIndexBuffer :: "16 word list \<Rightarrow> GPURenderPassEncoder \<Rightarrow> GPURenderPassEncoder" where
  "setIndexBuffer b renderPass =
     renderPass\<lparr> state := (state renderPass)\<lparr> boundIndexBuffer := Some b \<rparr> \<rparr>"

definition drawIndexed :: "nat \<Rightarrow> GPURenderPassEncoder \<Rightarrow> GPURenderPassEncoder" where
  "drawIndexed n renderPass = renderPass\<lparr> draws := draws renderPass @ [(state renderPass, n)] \<rparr>"

section \<open>core/Camera.ts\<close>

record HTMLCanvasElement =
  width :: nat
  height :: nat

record Matrix4x4 =
  data :: Float32Array

record Camera =
  position :: Vec3
  viewMatrix :: Matrix4x4
  projectionMatrix :: Matrix4x4

text \<open>
  The controller's \<^verbatim>\<open>device\<close> and \<^verbatim>\<open>canvas\<close> are references to the renderer's; its
  methods take them as arguments.
\<close>

record CameraController =
  camera :: Camera

definition updateViewMatrix :: "CameraController \<Rightarrow> CameraController" where
  "updateViewMatrix this =
     this\<lparr> camera := (camera this)
       \<lparr> viewMatrix := \<lparr> data = createViewMatrix (position (camera this))
                              \<lparr> x = Num 0, y = Num 0, z = Num 0 \<rparr> default_up \<rparr> \<rparr> \<rparr>"

definition updateProjectionMatrix :: "HTMLCanvasElement \<Rightarrow> CameraController \<Rightarrow> CameraController" where
  "updateProjectionMatrix canvas this =
     (let aspect = Num (real (width canvas)) / Num (real (height canvas));
          fov = (Num 45 * Math_PI) / Num 180;
          near = Num 0.1;
          far = Num 100
      in this\<lparr> camera := (camera this)
           \<lparr> projectionMatrix := \<lparr> data = createProjectionMatrix fov aspect near far \<rparr> \<rparr> \<rparr>)"

definition new_CameraController :: "Vec3 \<Rightarrow> HTMLCanvasElement \<Rightarrow> CameraController" where
  "new_CameraController initialPosition canvas =
     (let this = \<lparr> camera = \<lparr> position = initialPosition,
                               viewMatrix = \<lparr> data = new_Float32Array 16 \<rparr>,
                               projectionMatrix = \<lparr> data = new_Float32Array 16 \<rparr> \<rparr> \<rparr>;
          this = updateViewMatrix this;
          this = updateProjectionMatrix canvas this
      in this)"

definition updateUniformBuffer :: "CameraController \<Rightarrow> GPUBuffer \<Rightarrow> GPUDevice \<Rightarrow> GPUDevice" where
  "updateUniformBuffer this buffer device =
     (let device = writeBuffer buffer 0 (data (viewMatrix (camera this))) 0 16 device;
          device = writeBuffer buffer 64 (data (projectionMatrix (camera this))) 0 16 device
      in device)"

definition createUniformBuffer :: "CameraController \<Rightarrow> GPUDevice \<Rightarrow> GPUDevice \<times> GPUBuffer" where
  "createUniformBuffer this device =
     (let uniformBuffer = CameraUniformBuffer;
          device = createBuffer uniformBuffer 128 device;
          device = updateUniformBuffer this uniformBuffer device
      in (device, uniformBuffer))"

definition CameraController_handleResize ::
  "HTMLCanvasElement \<Rightarrow> CameraController \<Rightarrow> CameraController" where
  "CameraController_handleResize canvas this = updateProjectionMatrix canvas this"

definition orbitCamera :: "number \<Rightarrow> CameraController \<Rightarrow> CameraController" where
  "orbitCamera time this =
     (let radius = Num 5;
          speed = Num 0.2;
          this = this\<lparr> camera := (camera this)
                   \<lparr> position := \<lparr> x = Math_sin (time * speed) * radius,
                                   y = Num 1.5,
                                   z = Math_cos (time * speed) * radius \<rparr> \<rparr> \<rparr>
      in updateViewMatrix this)"

section \<open>core/StencilManager.ts\<close>

definition renderStencilMask ::
  "GPURenderPassEncoder \<Rightarrow> ObjectGeometry \<Rightarrow> nat \<Rightarrow> GPUBindGroup \<Rightarrow> GPUBindGroup
     \<Rightarrow> GPURenderPassEncoder" where
  "renderStencilMask renderPass geometry stencilValue bindGroup transformBindGroup =
     (let renderPass = setPipeline StencilPipeline renderPass;
          renderPass = setStencilReference stencilValue renderPass;
          renderPass = setBindGroup 0 bindGroup renderPass;
          renderPass = setBindGroup 1 transformBindGroup renderPass;
          renderPass = setVertexBuffer 0 (vertexBuffer geometry) renderPass;
          renderPass = setIndexBuffer (indexBuffer geometry) renderPass
      in drawIndexed (indexCount geometry) renderPass)"

section \<open>core/Renderer.ts\<close>

record Renderer =
  canvas :: HTMLCanvasElement
  cameraController :: CameraController
  cameraBindGroup :: GPUBindGroup

definition Renderer_initialize :: "HTMLCanvasElement \<Rightarrow> GPUDevice \<Rightarrow> GPUDevice \<times> Renderer" where
  "Renderer_initialize theCanvas device =
     (let controller = new_CameraController \<lparr> x = Num 0, y = Num 0, z = Num 5 \<rparr> theCanvas;
          (device, cameraUniformBuffer) = createUniformBuffer controller device
      in (device,
          \<lparr> canvas = theCanvas,
            cameraController = controller,
            cameraBindGroup = BindGroup CameraBindGroupLayout cameraUniformBuffer \<rparr>))"

definition renderObject ::
  "Renderer \<Rightarrow> GPURenderPassEncoder \<Rightarrow> ObjectGeometry \<Rightarrow> nat \<Rightarrow> GPUBindGroup
     \<Rightarrow> GPURenderPassEncoder" where
  "renderObject this renderPass geometry stencilValue transformBindGroup =
     (let renderPass = setPipeline ObjectPipeline renderPass;
          renderPass = setStencilReference stencilValue renderPass;
          renderPass = setBindGroup 0 (cameraBindGroup this) renderPass;
          renderPass = setBindGroup 1 transformBindGroup renderPass;
          renderPass = setVertexBuffer 0 (vertexBuffer geometry) renderPass;
          renderPass = setVertexBuffer 1 (colorBuffer geometry) renderPass;
          renderPass = setIndexBuffer (indexBuffer geometry) renderPass
      in drawIndexed (indexCount geometry) renderPass)"

definition renderTransparentObject ::
  "Renderer \<Rightarrow> GPURenderPassEncoder \<Rightarrow> ObjectGeometry \<Rightarrow> GPUBindGroup \<Rightarrow> GPURenderPassEncoder" where
  "renderTransparentObject this renderPass geometry transformBindGroup =
     (let renderPass = setPipeline TransparentPipeline renderPass;
          renderPass = setBindGroup 0 (cameraBindGroup this) renderPass;
          renderPass = setBindGroup 1 transformBindGroup renderPass;
          renderPass = setVertexBuffer 0 (vertexBuffer geometry) renderPass;
          renderPass = setVertexBuffer 1 (colorBuffer geometry) renderPass;
          renderPass = setIndexBuffer (indexBuffer geometry) renderPass
      in drawIndexed (indexCount geometry) renderPass)"

definition createTransformBindGroup :: "GPUBuffer \<Rightarrow> GPUBindGroup" where
  "createTransformBindGroup buffer = BindGroup TransformBindGroupLayout buffer"

text \<open>
  \<^verbatim>\<open>handleResize\<close> reads the window's inner size, here its two arguments. The
  depth-stencil texture it recreates holds no state of the model.
\<close>

definition Renderer_handleResize :: "nat \<Rightarrow> nat \<Rightarrow> Renderer \<Rightarrow> Renderer" where
  "Renderer_handleResize innerWidth innerHeight this =
     (let this = this\<lparr> canvas := (canvas this)\<lparr> width := innerWidth, height := innerHeight \<rparr> \<rparr>
      in this\<lparr> cameraController :=
                 CameraController_handleResize (canvas this) (cameraController this) \<rparr>)"

definition beginRenderPass :: GPURenderPassEncoder where
  "beginRenderPass =
     \<lparr> state = \<lparr> pipeline = None, stencilReference = 0, bindGroup0 = None, bindGroup1 = None,
                 vertexBuffer0 = None, vertexBuffer1 = None, boundIndexBuffer = None \<rparr>,
       draws = [] \<rparr>"

definition endRenderPass :: "GPURenderPassEncoder \<Rightarrow> GPUDevice \<Rightarrow> GPUDevice" where
  "endRenderPass renderPass device =
     device\<lparr> submitted := submitted device @ [draws renderPass] \<rparr>"

section \<open>geometry/TransparentCube.ts\<close>

record CubeFace =
  geometry :: ObjectGeometry
  stencilValue :: nat
  transform :: Matrix4x4

record TransparentCube =
  outerCube :: ObjectGeometry
  faces :: "CubeFace list"
  rotationMatrix :: Matrix4x4
  size :: number

definition createFaces :: "TransparentCube \<Rightarrow> TransparentCube" where
  "createFaces this =
     (let halfSize = size this / Num 2;
          faceFacePositions =
            [\<lparr> x = Num 0, y = Num 0, z = halfSize \<rparr>,
             \<lparr> x = Num 0, y = Num 0, z = - halfSize \<rparr>,
             \<lparr> x = Num 0, y = halfSize, z = Num 0 \<rparr>,
             \<lparr> x = Num 0, y = - halfSize, z = Num 0 \<rparr>,
             \<lparr> x = halfSize, y = Num 0, z = Num 0 \<rparr>,
             \<lparr> x = - halfSize, y = Num 0, z = Num 0 \<rparr>];
          faceRotations =
            [\<lparr> x = Num 0, y = Num 0, z = Num 0 \<rparr>,
             \<lparr> x = Num 0, y = Math_PI, z = Num 0 \<rparr>,
             \<lparr> x = Math_PI / Num 2, y = Num 0, z = Num 0 \<rparr>,
             \<lparr> x = - Math_PI / Num 2, y = Num 0, z = Num 0 \<rparr>,
             \<lparr> x = Num 0, y = Math_PI / Num 2, z = Num 0 \<rparr>,
             \<lparr> x = Num 0, y = - Math_PI / Num 2, z = Num 0 \<rparr>];
          faceSize = size this * Num 0.95
      in fold (\<lambda>i this.
           (let stencilValue = i + 1;
                faceGeometry = BoxGeometry_createQuad faceSize faceSize
                  \<lparr> x = Num 1, y = Num 1, z = Num 1, w = Num 1 \<rparr> (faceFacePositions ! i)
            in this\<lparr> faces := faces this @
                 [\<lparr> geometry = faceGeometry,
                    stencilValue = stencilValue,
                    transform = \<lparr> data = createRotationMatrix
                      (x (faceRotations ! i)) (y (faceRotations ! i)) (z (faceRotations ! i)) \<rparr> \<rparr>] \<rparr>))
         [0..<6] this)"

definition updateRotation ::
  "number \<Rightarrow> GPUDevice \<times> TransparentCube \<Rightarrow> GPUDevice \<times> TransparentCube" where
  "updateRotation time = (\<lambda>(device, this).
     (let rotationSpeed = Num 0.3;
          angle = time * rotationSpeed;
          this = this\<lparr> rotationMatrix :=
                   \<lparr> data = createRotationMatrix (angle * Num 0.5) angle (angle * Num 0.25) \<rparr> \<rparr>;
          device = writeBuffer RotationTransformBuffer 0 (data (rotationMatrix this)) 0 16 device
      in (device, this)))"

definition new_TransparentCube :: "number \<Rightarrow> GPUDevice \<Rightarrow> GPUDevice \<times> TransparentCube" where
  "new_TransparentCube cubeSize device =
     (let this = \<lparr> outerCube = BoxGeometry_create cubeSize cubeSize cubeSize
                      \<lparr> x = Num 0.9, y = Num 0.9, z = Num 0.9, w = Num 0.05 \<rparr>
                      \<lparr> x = Num 0, y = Num 0, z = Num 0 \<rparr>,
                    faces = [],
                    rotationMatrix = \<lparr> data = new_Float32Array 16 \<rparr>,
                    size = cubeSize \<rparr>;
          this = createFaces this;
          device = createBuffer RotationTransformBuffer 64 device
      in updateRotation (Num 0) (device, this))"

definition getRotationBuffer :: "TransparentCube \<Rightarrow> GPUBuffer" where
  "getRotationBuffer this = RotationTransformBuffer"

section \<open>main.ts\<close>

record VelesPortals =
  renderer :: Renderer
  transparentCube :: TransparentCube
  innerCube :: ObjectGeometry
  innerSphere :: ObjectGeometry
  identityBindGroup :: GPUBindGroup

text \<open>
  \<^verbatim>\<open>initialize\<close>: the renderer, then \<^verbatim>\<open>createGeometries\<close>, then \<^verbatim>\<open>setupTransforms\<close>. The
  canvas has the size \<^verbatim>\<open>index.ts\<close> gave it. The sphere builder is called with 24 and 18
  segments, where it returns (\<open>inner_sphere_returns\<close> below); the inner sphere is the mesh it
  returns.
\<close>

definition VelesPortals_initialize :: "HTMLCanvasElement \<Rightarrow> GPUDevice \<times> VelesPortals" where
  "VelesPortals_initialize theCanvas =
     (let (device, theRenderer) = Renderer_initialize theCanvas new_GPUDevice;
          (device, cube) = new_TransparentCube (Num 2) device;
          cubeGeometry = BoxGeometry_create (Num 0.8) (Num 0.8) (Num 0.8)
            \<lparr> x = Num 1, y = Num 0.2, z = Num 0.2, w = Num 1 \<rparr>
            \<lparr> x = Num 0, y = Num 0, z = Num 0 \<rparr>;
          sphereGeometry = the (SphereGeometry_create (Num 0.6) (Num 24) (Num 18)
            \<lparr> x = Num 0.2, y = Num 0.2, z = Num 1, w = Num 1 \<rparr>
            \<lparr> x = Num 0, y = Num 0, z = Num 0 \<rparr>);
          device = createBuffer IdentityTransformBuffer 64 device;
          identityMatrix = createIdentityMatrix;
          device = writeBuffer IdentityTransformBuffer 0 identityMatrix 0 16 device
      in (device,
          \<lparr> renderer = theRenderer,
            transparentCube = cube,
            innerCube = cubeGeometry,
            innerSphere = sphereGeometry,
            identityBindGroup = createTransformBindGroup IdentityTransformBuffer \<rparr>))"

definition render :: "number \<Rightarrow> GPUDevice \<times> VelesPortals \<Rightarrow> GPUDevice \<times> VelesPortals" where
  "render time = (\<lambda>(device, this).
     (let (device, cube) = updateRotation time (device, transparentCube this);
          this = this\<lparr> transparentCube := cube \<rparr>;
          cubeTransformBindGroup =
            createTransformBindGroup (getRotationBuffer (transparentCube this));
          renderPass = beginRenderPass;
          theFaces = faces (transparentCube this);
          renderPass = fold (\<lambda>face renderPass.
              renderStencilMask renderPass (geometry face) (stencilValue face)
                (cameraBindGroup (renderer this)) cubeTransformBindGroup)
            theFaces renderPass;
          renderPass = fold (\<lambda>i renderPass.
              (let theStencilValue = i + 1
               in if i mod 2 = 0
                  then renderObject (renderer this) renderPass (innerCube this)
                         theStencilValue (identityBindGroup this)
                  else renderObject (renderer this) renderPass (innerSphere this)
                         theStencilValue (identityBindGroup this)))
            [0..<length theFaces] renderPass;
          renderPass = renderTransparentObject (renderer this) renderPass
            (outerCube (transparentCube this)) cubeTransformBindGroup;
          device = endRenderPass renderPass device
      in (device, this)))"

definition VelesPortals_handleResize ::
  "nat \<Rightarrow> nat \<Rightarrow> GPUDevice \<times> VelesPortals \<Rightarrow> GPUDevice \<times> VelesPortals" where
  "VelesPortals_handleResize innerWidth innerHeight = (\<lambda>(device, this).
     (device, this\<lparr> renderer := Renderer_handleResize innerWidth innerHeight (renderer this) \<rparr>))"

text \<open>
  One tick of \<^verbatim>\<open>Renderer.startAnimationLoop\<close>, with the render function \<^verbatim>\<open>main.ts\<close>
  passes to it; \<open>time\<close> is the frame's timestamp in milliseconds.
\<close>

definition animate :: "number \<Rightarrow> GPUDevice \<times> VelesPortals \<Rightarrow> GPUDevice \<times> VelesPortals" where
  "animate time = (\<lambda>(device, this).
     (let timeInSeconds = time / Num 1000;
          this = this\<lparr> renderer := (renderer this)
                   \<lparr> cameraController :=
                       orbitCamera timeInSeconds (cameraController (renderer this)) \<rparr> \<rparr>
      in render timeInSeconds (device, this)))"

text \<open>What the host delivers after start-up: animation frames and resizes, in any order.\<close>

datatype event = Frame number | Resize nat nat

fun deliver :: "event \<Rightarrow> GPUDevice \<times> VelesPortals \<Rightarrow> GPUDevice \<times> VelesPortals" where
  "deliver (Frame time) s = animate time s"
| "deliver (Resize innerWidth innerHeight) s = VelesPortals_handleResize innerWidth innerHeight s"

definition run :: "HTMLCanvasElement \<Rightarrow> event list \<Rightarrow> GPUDevice \<times> VelesPortals" where
  "run theCanvas events = fold deliver events (VelesPortals_initialize theCanvas)"

section \<open>Evaluation lemmas\<close>

lemmas number_ops = plus_number_def uminus_number_def minus_number_def times_number_def
  divide_number_def inverse_number_def less_number_def less_eq_number_def

lemma upt4: "[0..<4] = [0, 1, 2, 3]"
  by (simp add: upt_rec)

lemma upt6: "[0..<6] = [0, 1, 2, 3, 4, 5]"
  by (simp add: upt_rec)

lemma replicate16: "replicate 16 a = [a, a, a, a, a, a, a, a, a, a, a, a, a, a, a, a]"
  by (simp add: numeral_eq_Suc)

lemma identity_list:
  "createIdentityMatrix =
     [Num 1, Num 0, Num 0, Num 0,
      Num 0, Num 1, Num 0, Num 0,
      Num 0, Num 0, Num 1, Num 0,
      Num 0, Num 0, Num 0, Num 1]"
  by (simp add: createIdentityMatrix_def new_Float32Array_def replicate16)

lemma rotX0: "createRotationXMatrix (Num 0) = createIdentityMatrix"
  by (simp add: createRotationXMatrix_def identity_list Let_def number_ops)

lemma rotY0: "createRotationYMatrix (Num 0) = createIdentityMatrix"
  by (simp add: createRotationYMatrix_def identity_list Let_def number_ops)

lemma rotZ0: "createRotationZMatrix (Num 0) = createIdentityMatrix"
  by (simp add: createRotationZMatrix_def identity_list Let_def number_ops)

lemma mult_id_id:
  "multiplyMatrices createIdentityMatrix createIdentityMatrix = createIdentityMatrix"
  by (simp add: multiplyMatrices_def identity_list upt4 get_def number_ops
      new_Float32Array_def replicate16)

lemma rot0: "createRotationMatrix (Num 0) (Num 0) (Num 0) = createIdentityMatrix"
  by (simp add: createRotationMatrix_def Let_def rotX0 rotY0 rotZ0 mult_id_id)

lemma length_multiplyMatrices: "length (multiplyMatrices a b) = 16"
  by (simp add: multiplyMatrices_def upt4 new_Float32Array_def)

lemma length_createRotationMatrix: "length (createRotationMatrix a b c) = 16"
  by (simp add: createRotationMatrix_def Let_def length_multiplyMatrices)

lemma halve_is_scale: "f / Num 2 = (f / Num 1) * Num (1 / 2)"
  by (cases f) (simp_all add: number_ops)

section \<open>The math library\<close>

text \<open>
  C7. \<^verbatim>\<open>createRotationMatrix(0, 0, 0)\<close> is the identity matrix, element for element, and so
  \<^verbatim>\<open>updateRotation(0)\<close> leaves the identity in the cube's rotation matrix, whatever the
  cube and the device were; the constructor, which ends with that call, also leaves the
  identity in the rotation buffer it has just allocated.
\<close>

theorem rotation_zero_is_identity:
  "createRotationMatrix (Num 0) (Num 0) (Num 0) = createIdentityMatrix
   \<and> data (rotationMatrix (snd (updateRotation (Num 0) (device, cube)))) = createIdentityMatrix
   \<and> data (rotationMatrix (snd (new_TransparentCube (Num 2) device))) = createIdentityMatrix
   \<and> buffers (fst (new_TransparentCube (Num 2) device)) RotationTransformBuffer
       = createIdentityMatrix"
  by (simp add: new_TransparentCube_def updateRotation_def Let_def number_ops rot0
      writeBuffer_def createBuffer_def new_Float32Array_def identity_list)

text \<open>
  C8. \<^verbatim>\<open>normalizeVector\<close> of the zero vector is the zero vector: its length is 0, the
  guard returns before any division. And the guard is what keeps \<^verbatim>\<open>NaN\<close> out: on every
  vector of finite components the result has finite components, so the division is
  never one by zero.
\<close>

theorem normalize_zero_vector:
  "normalizeVector \<lparr> x = Num 0, y = Num 0, z = Num 0 \<rparr> = \<lparr> x = Num 0, y = Num 0, z = Num 0 \<rparr>
   \<and> (\<exists>a' b' c'. normalizeVector \<lparr> x = Num a, y = Num b, z = Num c \<rparr>
          = \<lparr> x = Num a', y = Num b', z = Num c' \<rparr>)"
proof -
  have "\<not> a * a + b * b + c * c < 0"
    by (simp add: not_less)
  then show ?thesis
    by (simp add: normalizeVector_def number_ops strict_eq_def Let_def)
qed

lemma proj_nth0:
  "createProjectionMatrix fov aspect n f ! 0 = (Num 1 / Math_tan (fov / Num 2)) / aspect"
  by (simp add: createProjectionMatrix_def Let_def new_Float32Array_def replicate16)

lemma tan_eighth: "0 < sin (pi / 8) \<and> 0 < cos (pi / 8)"
proof -
  have "0 < pi / 8" "pi / 8 < pi" "pi / 8 < pi / 2" using pi_gt_zero by simp_all
  then show ?thesis using sin_gt_zero cos_gt_zero by blast
qed

lemma focal_finite:
  "\<exists>f. f \<noteq> 0 \<and> Num 1 / Math_tan ((Num 45 * Math_PI) / Num 180 / Num 2) = Num f"
proof -
  have "sin (pi / 8) \<noteq> 0" "cos (pi / 8) \<noteq> 0" using tan_eighth by simp_all
  then show ?thesis
    by (simp add: Math_tan_def Math_PI_def number_ops)
qed

lemma proj_tail:
  "drop 1 (createProjectionMatrix fov aspect near far) =
     [Num 0, Num 0, Num 0,
      Num 0, Num 1 / Math_tan (fov / Num 2), Num 0, Num 0,
      Num 0, Num 0, (far + near) * (Num 1 / (near - far)), Num (- 1),
      Num 0, Num 0, Num 2 * far * near * (Num 1 / (near - far)), Num 0]"
  by (simp add: createProjectionMatrix_def Let_def new_Float32Array_def replicate16)

lemma proj_aspect_two:
  "createProjectionMatrix fov (Num 2) near far =
     (createProjectionMatrix fov (Num 1) near far)
       [0 := createProjectionMatrix fov (Num 1) near far ! 0 * Num (1 / 2)]
   \<and> length (createProjectionMatrix fov (Num 1) near far) = 16"
  by (simp add: createProjectionMatrix_def Let_def new_Float32Array_def replicate16
      halve_is_scale)

lemma proj_differs:
  "createProjectionMatrix ((Num 45 * Math_PI) / Num 180) (Num 2) near far ! 0
     \<noteq> createProjectionMatrix ((Num 45 * Math_PI) / Num 180) (Num 1) near far ! 0"
proof -
  obtain f where f: "f \<noteq> 0" "Num 1 / Math_tan ((Num 45 * Math_PI) / Num 180 / Num 2) = Num f"
    using focal_finite by blast
  show ?thesis
    unfolding proj_nth0 f(2) using f(1) by (simp add: number_ops)
qed

text \<open>
  C9. With the same \<open>fov\<close>, \<open>near\<close> and \<open>far\<close>, the projection matrix for aspect ratio 2 is
  the one for aspect ratio 1 with element 0 replaced by half its value. Element 0 is the
  focal length \<open>1 / tan(fov / 2)\<close> at aspect ratio 1 and that divided by 2 at aspect ratio
  2; the fifteen other elements are the focal length at index 5, \<open>(far + near) / (near - far)\<close>
  at index 10, \<open>-1\<close> at index 11, \<open>2 far near / (near - far)\<close> at index 14 and 0 elsewhere,
  whatever the aspect ratio. At the program's field of view of 45 degrees, element 0 for
  aspect ratio 2 is not the one for aspect ratio 1.
\<close>

theorem projection_aspect_two:
  "createProjectionMatrix fov (Num 2) near far =
     (createProjectionMatrix fov (Num 1) near far)
       [0 := createProjectionMatrix fov (Num 1) near far ! 0 * Num (1 / 2)]
   \<and> length (createProjectionMatrix fov (Num 1) near far) = 16
   \<and> length (createProjectionMatrix fov aspect near far) = 16
   \<and> createProjectionMatrix fov (Num 1) near far ! 0 = Num 1 / Math_tan (fov / Num 2)
   \<and> createProjectionMatrix fov (Num 2) near far ! 0 = (Num 1 / Math_tan (fov / Num 2)) / Num 2
   \<and> drop 1 (createProjectionMatrix fov aspect near far) =
       [Num 0, Num 0, Num 0,
        Num 0, Num 1 / Math_tan (fov / Num 2), Num 0, Num 0,
        Num 0, Num 0, (far + near) * (Num 1 / (near - far)), Num (- 1),
        Num 0, Num 0, Num 2 * far * near * (Num 1 / (near - far)), Num 0]
   \<and> createProjectionMatrix ((Num 45 * Math_PI) / Num 180) (Num 2) near far ! 0
       \<noteq> createProjectionMatrix ((Num 45 * Math_PI) / Num 180) (Num 1) near far ! 0"
proof -
  have one: "createProjectionMatrix fov (Num 1) near far ! 0 = Num 1 / Math_tan (fov / Num 2)"
    unfolding proj_nth0 by (cases "Num 1 / Math_tan (fov / Num 2)") (simp_all add: number_ops)
  have len: "length (createProjectionMatrix fov aspect near far) = 16"
    by (simp add: createProjectionMatrix_def Let_def new_Float32Array_def)
  show ?thesis
    by (rule conjI[OF conjunct1[OF proj_aspect_two] conjI[OF conjunct2[OF proj_aspect_two]
          conjI[OF len conjI[OF one conjI[OF proj_nth0 conjI[OF proj_tail proj_differs]]]]]])
qed

section \<open>The box builder\<close>

text \<open>
  C5. Whatever its arguments, \<^verbatim>\<open>BoxGeometry.create\<close> writes 72 position floats, that is 24
  vertices, and 36 indices, each below 24; the \<^verbatim>\<open>indexCount\<close> it returns is 36.
\<close>

theorem box_counts:
  "length (vertexBuffer (BoxGeometry_create wd ht dp col pos)) = 72
   \<and> length (vertexBuffer (BoxGeometry_create wd ht dp col pos)) div 3 = 24
   \<and> length (indexBuffer (BoxGeometry_create wd ht dp col pos)) = 36
   \<and> list_all (\<lambda>i. unat i < 24) (indexBuffer (BoxGeometry_create wd ht dp col pos))
   \<and> indexCount (BoxGeometry_create wd ht dp col pos) = 36"
  by (simp add: BoxGeometry_create_def Let_def)

text \<open>
  C6. For the input colour \<open>(r, g, b, a)\<close> the colour buffer is, face after face, four
  copies of: \<open>(r, g, b, a)\<close> for the front, \<open>(g, r, b, a)\<close> for the back, \<open>(b, r, g, a)\<close> for
  the top, \<open>(r, g, 0, a)\<close> for the bottom, \<open>(0, g, b, a)\<close> for the right and
  \<open>(r, 0, b, a)\<close> for the left face.
\<close>

theorem box_face_colors:
  "colorBuffer (BoxGeometry_create wd ht dp \<lparr> x = r, y = g, z = b, w = a \<rparr> pos) =
     concat (map (\<lambda>faceColor. concat (replicate 4 faceColor))
       [[r, g, b, a], [g, r, b, a], [b, r, g, a],
        [r, g, Num 0, a], [Num 0, g, b, a], [r, Num 0, b, a]])"
  by (simp add: BoxGeometry_create_def Let_def numeral_eq_Suc)

section \<open>Lists built in chunks\<close>


lemma fold_append_chunks:
  "fold (\<lambda>i acc. acc @ f i) xs acc0 = acc0 @ concat (map f xs)"
  by (induction xs arbitrary: acc0) simp_all




section \<open>The sphere builder\<close>

text \<open>A loop whose body always returns is a fold over its counter values.\<close>

lemma for_loop_total:
  "(\<And>i s. body i s = Some (f i s)) \<Longrightarrow> for_loop (Some xs) body s = Some (fold f xs s)"
proof (induction xs arbitrary: s)
  case Nil
  show ?case by (simp add: for_loop_def)
next
  case (Cons a xs)
  have "for_loop (Some (a # xs)) body s = for_loop (Some xs) body (f a s)"
    by (simp add: for_loop_def Cons.prems)
  then show ?case using Cons.IH[OF Cons.prems] by simp
qed

lemma loop_le_nat: "loop_le (Num (real n)) = Some [0..<n + 1]"
  by (simp add: nat_add_distrib)

lemma loop_lt_nat: "loop_lt (Num (real n)) = Some [0..<n]"
  by simp

lemma max_of_int:
  "Math_max (Num 3) (Num (of_int f)) = Num (of_int (max 3 f))"
  "Math_max (Num 2) (Num (of_int f)) = Num (of_int (max 2 f))"
  by (simp_all add: Math_max_def number_ops max_def)

lemma clamp_finite:
  "Math_max (Num 3) (Math_floor (Num a)) = Num (real (nat (max 3 \<lfloor>a\<rfloor>)))"
  "Math_max (Num 2) (Math_floor (Num a)) = Num (real (nat (max 2 \<lfloor>a\<rfloor>)))"
proof -
  have r: "real (nat (max 3 \<lfloor>a\<rfloor>)) = real_of_int (max 3 \<lfloor>a\<rfloor>)"
    "real (nat (max 2 \<lfloor>a\<rfloor>)) = real_of_int (max 2 \<lfloor>a\<rfloor>)"
    by simp_all
  show "Math_max (Num 3) (Math_floor (Num a)) = Num (real (nat (max 3 \<lfloor>a\<rfloor>)))"
    unfolding r by (simp only: Math_floor.simps max_of_int)
  show "Math_max (Num 2) (Math_floor (Num a)) = Num (real (nat (max 2 \<lfloor>a\<rfloor>)))"
    unfolding r by (simp only: Math_floor.simps max_of_int)
qed

lemma length_sphere_vertex: "length (sphere_vertex r p W H iy ix) = 3"
  by (simp add: sphere_vertex_def Let_def)

lemma length_row_vertices:
  "length (concat (map (sphere_vertex r p W H iy) [0..<n])) = n * 3"
  by (induction n) (simp_all add: length_sphere_vertex)

lemma length_rows_vertices:
  "length (concat (map (\<lambda>iy. concat (map (sphere_vertex r p W H iy) [0..<m])) [0..<n]))
     = n * (m * 3)"
  by (induction n) (simp_all add: length_row_vertices)

lemma sphere_row_fold:
  "fold (\<lambda>ix (vertices, row).
         (let vertices = vertices @ sphere_vertex r p W H iy ix
          in (vertices, row @ [length vertices div 3 - 1])))
       [0..<n] (vs, row0)
   = (vs @ concat (map (sphere_vertex r p W H iy) [0..<n]),
      row0 @ map (\<lambda>ix. (length vs + (ix + 1) * 3) div 3 - 1) [0..<n])"
proof -
  define step where "step = (\<lambda>ix (vertices, row).
         (let vertices = vertices @ sphere_vertex r p W H iy ix
          in (vertices, row @ [length vertices div 3 - 1])))"
  have "fold step [0..<n] (vs, row0)
   = (vs @ concat (map (sphere_vertex r p W H iy) [0..<n]),
      row0 @ map (\<lambda>ix. (length vs + (ix + 1) * 3) div 3 - 1) [0..<n])"
  proof (induction n)
    case 0
    show ?case by simp
  next
    case (Suc n)
    have "fold step [0..<Suc n] (vs, row0) = step n (fold step [0..<n] (vs, row0))"
      by simp
    also have "\<dots> = step n (vs @ concat (map (sphere_vertex r p W H iy) [0..<n]),
      row0 @ map (\<lambda>ix. (length vs + (ix + 1) * 3) div 3 - 1) [0..<n])"
      by (simp only: Suc)
    also have "\<dots> = (vs @ concat (map (sphere_vertex r p W H iy) [0..<Suc n]),
      row0 @ map (\<lambda>ix. (length vs + (ix + 1) * 3) div 3 - 1) [0..<Suc n])"
      by (simp add: step_def Let_def length_sphere_vertex length_row_vertices add.commute)
    finally show ?case .
  qed
  then show ?thesis by (simp only: step_def)
qed

lemma sphere_row_eq:
  assumes "loop_le W = Some [0..<n]"
  shows "sphere_row r p W H iy vs =
     Some (vs @ concat (map (sphere_vertex r p W H iy) [0..<n]),
           map (\<lambda>ix. (length vs + (ix + 1) * 3) div 3 - 1) [0..<n])"
proof -
  have "sphere_row r p W H iy vs =
      Some (fold (\<lambda>ix (vertices, row).
         (let vertices = vertices @ sphere_vertex r p W H iy ix
          in (vertices, row @ [length vertices div 3 - 1]))) [0..<n] (vs, []))"
    unfolding sphere_row_def assms
    by (rule for_loop_total) (simp add: Let_def split_beta)
  then show ?thesis by (simp only: sphere_row_fold append_Nil)
qed

lemma grid_entry: "(k * (m * 3) + (ix + 1) * 3) div 3 - 1 = k * m + (ix::nat)"
proof -
  have "k * (m * 3) + (ix + 1) * 3 = (k * m + ix + 1) * 3"
    by (simp add: algebra_simps)
  then show ?thesis by simp
qed

lemma sphere_vertices_fold:
  assumes "loop_le W = Some [0..<n]"
  shows "fold (\<lambda>iy (vertices, grid).
           (case the (sphere_row r p W H iy vertices) of (vertices, row) \<Rightarrow> (vertices, grid @ [row])))
       [0..<m] ([], [])
   = (concat (map (\<lambda>iy. concat (map (sphere_vertex r p W H iy) [0..<n])) [0..<m]),
      map (\<lambda>iy. map (\<lambda>ix. iy * n + ix) [0..<n]) [0..<m])"
proof -
  define step where "step = (\<lambda>iy (vertices, grid).
           (case the (sphere_row r p W H iy vertices) of (vertices, row) \<Rightarrow> (vertices, grid @ [row])))"
  have "fold step [0..<m] ([], [])
   = (concat (map (\<lambda>iy. concat (map (sphere_vertex r p W H iy) [0..<n])) [0..<m]),
      map (\<lambda>iy. map (\<lambda>ix. iy * n + ix) [0..<n]) [0..<m])"
  proof (induction m)
    case 0
    show ?case by simp
  next
    case (Suc m)
    have "fold step [0..<Suc m] ([], []) = step m (fold step [0..<m] ([], []))"
      by simp
    also have "\<dots> = step m (concat (map (\<lambda>iy. concat (map (sphere_vertex r p W H iy) [0..<n])) [0..<m]),
      map (\<lambda>iy. map (\<lambda>ix. iy * n + ix) [0..<n]) [0..<m])"
      by (simp only: Suc)
    also have "\<dots> = (concat (map (\<lambda>iy. concat (map (sphere_vertex r p W H iy) [0..<n])) [0..<m])
        @ concat (map (sphere_vertex r p W H m) [0..<n]),
      map (\<lambda>iy. map (\<lambda>ix. iy * n + ix) [0..<n]) [0..<m]
        @ [map (\<lambda>ix. m * n + ix) [0..<n]])"
      unfolding step_def
      by (simp only: sphere_row_eq[OF assms] option.sel prod.case length_rows_vertices grid_entry)
    also have "\<dots> = (concat (map (\<lambda>iy. concat (map (sphere_vertex r p W H iy) [0..<n])) [0..<Suc m]),
      map (\<lambda>iy. map (\<lambda>ix. iy * n + ix) [0..<n]) [0..<Suc m])"
      by (simp only: upt_Suc_append[OF le0] map_append concat_append list.map concat.simps append_Nil2)
    finally show ?case .
  qed
  then show ?thesis by (simp only: step_def)
qed

lemma sphere_vertices_eq:
  assumes "loop_le W = Some [0..<n]" "loop_le H = Some [0..<m]"
  shows "sphere_vertices r p W H =
     Some (concat (map (\<lambda>iy. concat (map (sphere_vertex r p W H iy) [0..<n])) [0..<m]),
           map (\<lambda>iy. map (\<lambda>ix. iy * n + ix) [0..<n]) [0..<m])"
proof -
  have "sphere_vertices r p W H =
      Some (fold (\<lambda>iy (vertices, grid).
           (case the (sphere_row r p W H iy vertices) of (vertices, row) \<Rightarrow> (vertices, grid @ [row])))
       [0..<m] ([], []))"
    unfolding sphere_vertices_def assms(2)
    by (rule for_loop_total) (simp add: sphere_row_eq[OF assms(1)] split_beta)
  then show ?thesis by (simp only: sphere_vertices_fold[OF assms(1)])
qed

lemma sphere_indices_eq:
  assumes "loop_lt W = Some [0..<n]" "loop_lt H = Some [0..<m]"
  shows "sphere_indices grid W H =
     Some (concat (map (\<lambda>iy. concat (map (\<lambda>ix.
         (if iy \<noteq> 0 then [grid ! iy ! (ix + 1), grid ! iy ! ix, grid ! (iy + 1) ! (ix + 1)] else [])
         @ (if \<not> strict_eq (Num (real iy)) (H - Num 1)
            then [grid ! iy ! ix, grid ! (iy + 1) ! ix, grid ! (iy + 1) ! (ix + 1)] else []))
       [0..<n])) [0..<m]))"
proof -
  let ?Q = "\<lambda>iy ix.
         (if iy \<noteq> 0 then [grid ! iy ! (ix + 1), grid ! iy ! ix, grid ! (iy + 1) ! (ix + 1)] else [])
         @ (if \<not> strict_eq (Num (real iy)) (H - Num 1)
            then [grid ! iy ! ix, grid ! (iy + 1) ! ix, grid ! (iy + 1) ! (ix + 1)] else [])"
  have inner: "for_loop (Some [0..<n])
           (\<lambda>ix indices.
             (let a = grid ! iy ! (ix + 1);
                  b = grid ! iy ! ix;
                  c = grid ! (iy + 1) ! ix;
                  d = grid ! (iy + 1) ! (ix + 1);
                  indices = (if iy \<noteq> 0 then indices @ [a, b, d] else indices);
                  indices = (if \<not> strict_eq (Num (real iy)) (H - Num 1)
                             then indices @ [b, c, d] else indices)
              in Some indices))
           indices = Some (indices @ concat (map (?Q iy) [0..<n]))" for iy indices
  proof -
    have "for_loop (Some [0..<n])
           (\<lambda>ix indices.
             (let a = grid ! iy ! (ix + 1);
                  b = grid ! iy ! ix;
                  c = grid ! (iy + 1) ! ix;
                  d = grid ! (iy + 1) ! (ix + 1);
                  indices = (if iy \<noteq> 0 then indices @ [a, b, d] else indices);
                  indices = (if \<not> strict_eq (Num (real iy)) (H - Num 1)
                             then indices @ [b, c, d] else indices)
              in Some indices))
           indices = Some (fold (\<lambda>ix indices. indices @ ?Q iy ix) [0..<n] indices)"
      by (rule for_loop_total) (simp add: Let_def)
    then show ?thesis by (simp only: fold_append_chunks)
  qed
  have "sphere_indices grid W H =
      Some (fold (\<lambda>iy indices. indices @ concat (map (?Q iy) [0..<n])) [0..<m] [])"
    unfolding sphere_indices_def assms
    by (rule for_loop_total) (rule inner)
  then show ?thesis by (simp only: fold_append_chunks append_Nil)
qed

lemma last_ring: "strict_eq (Num (real iy)) (Num (real H) - Num 1) = (int iy = int H - 1)"
proof -
  have "(real iy = real H - 1) = (int iy = int H - 1)"
    by linarith
  then show ?thesis by (simp add: strict_eq_def number_ops)
qed

lemma sphere_indices_nat:
  "sphere_indices grid (Num (real W)) (Num (real H)) =
     Some (concat (map (\<lambda>iy. concat (map (\<lambda>ix.
         (if iy \<noteq> 0 then [grid ! iy ! (ix + 1), grid ! iy ! ix, grid ! (iy + 1) ! (ix + 1)] else [])
         @ (if int iy \<noteq> int H - 1
            then [grid ! iy ! ix, grid ! (iy + 1) ! ix, grid ! (iy + 1) ! (ix + 1)] else []))
       [0..<W])) [0..<H]))"
  by (simp only: sphere_indices_eq[OF loop_lt_nat loop_lt_nat] last_ring)






lemma sphere_vertices_nat:
  "sphere_vertices r p (Num (real W)) (Num (real H)) =
     Some (concat (map (\<lambda>iy. concat (map (sphere_vertex r p (Num (real W)) (Num (real H)) iy)
                                      [0..<W + 1])) [0..<H + 1]),
           map (\<lambda>iy. map (\<lambda>ix. iy * (W + 1) + ix) [0..<W + 1]) [0..<H + 1])"
  by (rule sphere_vertices_eq[OF loop_le_nat loop_le_nat])









lemma sphere_create_finite:
  assumes "W = nat (max 3 \<lfloor>ws\<rfloor>)" "H = nat (max 2 \<lfloor>hs\<rfloor>)"
  shows "\<exists>V G ids.
      sphere_vertices radius pos (Num (real W)) (Num (real H)) = Some (V, G)
    \<and> sphere_indices G (Num (real W)) (Num (real H)) = Some ids
    \<and> length V = (W + 1) * (H + 1) * 3
    \<and> SphereGeometry_create radius (Num ws) (Num hs) col pos =
        Some \<lparr> vertexBuffer = map Math_fround V, colorBuffer = sphere_colors V radius col pos,
               indexBuffer = map of_nat ids, indexCount = length ids \<rparr>"
proof -
  obtain V G where sv: "sphere_vertices radius pos (Num (real W)) (Num (real H)) = Some (V, G)"
    by (simp only: sphere_vertices_nat)
  obtain ids where si: "sphere_indices G (Num (real W)) (Num (real H)) = Some ids"
    by (simp only: sphere_indices_nat)
  have "V = concat (map (\<lambda>iy. concat (map (sphere_vertex radius pos (Num (real W)) (Num (real H)) iy)
                                      [0..<W + 1])) [0..<H + 1])"
    using sv by (simp only: sphere_vertices_nat option.inject prod.inject)
  then have lenV: "length V = (W + 1) * (H + 1) * 3"
    by (simp only: length_rows_vertices) (simp add: algebra_simps)
  have "SphereGeometry_create radius (Num ws) (Num hs) col pos =
        Some \<lparr> vertexBuffer = map Math_fround V, colorBuffer = sphere_colors V radius col pos,
               indexBuffer = map of_nat ids, indexCount = length ids \<rparr>"
    unfolding SphereGeometry_create_def clamp_finite assms(1)[symmetric] assms(2)[symmetric]
    by (simp add: Let_def sv si del: Math_fround.simps)
  with sv si lenV show ?thesis by blast
qed





text \<open>The inner sphere of the scene is built: the builder returns for 24 by 18 segments.\<close>

lemma inner_sphere_returns:
  "\<exists>g. SphereGeometry_create (Num 0.6) (Num 24) (Num 18) col pos = Some g"
proof -
  have h: "(24::nat) = nat (max 3 \<lfloor>24::real\<rfloor>)" "(18::nat) = nat (max 2 \<lfloor>18::real\<rfloor>)"
    by simp_all
  from sphere_create_finite[OF h, of "Num 0.6" pos col] show ?thesis by blast
qed








section \<open>The frame\<close>

lemma length6: "length xs = 6 \<Longrightarrow> \<exists>a b c d e f. xs = [a, b, c, d, e, f]"
  by (auto simp: numeral_eq_Suc length_Suc_conv)

lemmas pass_defs = renderStencilMask_def renderObject_def renderTransparentObject_def
  setPipeline_def setStencilReference_def setBindGroup_def setVertexBuffer_def setIndexBuffer_def
  drawIndexed_def beginRenderPass_def endRenderPass_def createTransformBindGroup_def
  getRotationBuffer_def

lemma updateRotation_cube:
  "snd (updateRotation t (device, cube)) = cube\<lparr> rotationMatrix :=
      \<lparr> data = createRotationMatrix (t * Num 0.3 * Num 0.5) (t * Num 0.3) (t * Num 0.3 * Num 0.25) \<rparr> \<rparr>"
  by (simp add: updateRotation_def Let_def)

lemma updateRotation_submitted:
  "submitted (fst (updateRotation t (device, cube))) = submitted device"
  by (simp add: updateRotation_def Let_def writeBuffer_def)

lemma render_draws:
  assumes "length (faces (transparentCube this)) = 6"
  shows "submitted (fst (render t (device, this))) = submitted device @
     [map (\<lambda>face.
         (\<lparr> pipeline = Some StencilPipeline,
            stencilReference = stencilValue face,
            bindGroup0 = Some (cameraBindGroup (renderer this)),
            bindGroup1 = Some (BindGroup TransformBindGroupLayout RotationTransformBuffer),
            vertexBuffer0 = Some (vertexBuffer (geometry face)),
            vertexBuffer1 = None,
            boundIndexBuffer = Some (indexBuffer (geometry face)) \<rparr>,
          indexCount (geometry face)))
        (faces (transparentCube this))
      @ map (\<lambda>i.
         (\<lparr> pipeline = Some ObjectPipeline,
            stencilReference = i + 1,
            bindGroup0 = Some (cameraBindGroup (renderer this)),
            bindGroup1 = Some (identityBindGroup this),
            vertexBuffer0 = Some (vertexBuffer (if even i then innerCube this else innerSphere this)),
            vertexBuffer1 = Some (colorBuffer (if even i then innerCube this else innerSphere this)),
            boundIndexBuffer = Some (indexBuffer (if even i then innerCube this else innerSphere this)) \<rparr>,
          indexCount (if even i then innerCube this else innerSphere this)))
        [0..<6]
      @ [(\<lparr> pipeline = Some TransparentPipeline,
            stencilReference = 6,
            bindGroup0 = Some (cameraBindGroup (renderer this)),
            bindGroup1 = Some (BindGroup TransformBindGroupLayout RotationTransformBuffer),
            vertexBuffer0 = Some (vertexBuffer (outerCube (transparentCube this))),
            vertexBuffer1 = Some (colorBuffer (outerCube (transparentCube this))),
            boundIndexBuffer = Some (indexBuffer (outerCube (transparentCube this))) \<rparr>,
          indexCount (outerCube (transparentCube this)))]]"
proof -
  obtain a b c d e f where fs: "faces (transparentCube this) = [a, b, c, d, e, f]"
    using length6[OF assms] by blast
  show ?thesis
    by (simp add: render_def split_beta updateRotation_cube updateRotation_submitted Let_def fs upt6 pass_defs)
qed

lemma updateRotation_buffers:
  "buffers (fst (updateRotation t (device, cube))) =
     (if 16 \<le> length (buffers device RotationTransformBuffer)
      then (buffers device)(RotationTransformBuffer :=
             createRotationMatrix (t * Num 0.3 * Num 0.5) (t * Num 0.3) (t * Num 0.3 * Num 0.25)
             @ drop 16 (buffers device RotationTransformBuffer))
      else buffers device)"
  by (simp add: updateRotation_def Let_def writeBuffer_def length_createRotationMatrix)

text \<open>What \<^verbatim>\<open>render\<close> and a frame do to the application and to the buffers.\<close>

lemma render_app:
  "snd (render t (device, this)) = this\<lparr> transparentCube := (transparentCube this)\<lparr> rotationMatrix :=
      \<lparr> data = createRotationMatrix (t * Num 0.3 * Num 0.5) (t * Num 0.3) (t * Num 0.3 * Num 0.25) \<rparr> \<rparr> \<rparr>"
  by (simp add: render_def split_beta Let_def updateRotation_cube)

lemma render_buffers:
  "buffers (fst (render t (device, this))) = buffers (fst (updateRotation t (device, transparentCube this)))"
  by (simp add: render_def split_beta Let_def endRenderPass_def)

lemma animate_app:
  "snd (animate t (device, this)) =
     this\<lparr> renderer := (renderer this)\<lparr> cameraController :=
                orbitCamera (t / Num 1000) (cameraController (renderer this)) \<rparr>,
           transparentCube := (transparentCube this)\<lparr> rotationMatrix :=
      \<lparr> data = createRotationMatrix (t / Num 1000 * Num 0.3 * Num 0.5) (t / Num 1000 * Num 0.3)
                 (t / Num 1000 * Num 0.3 * Num 0.25) \<rparr> \<rparr> \<rparr>"
  by (simp add: animate_def Let_def render_app)

lemma animate_buffers:
  "buffers (fst (animate t (device, this))) = buffers (fst (updateRotation (t / Num 1000) (device, transparentCube this)))"
  by (simp add: animate_def Let_def render_buffers)

lemma resize_app:
  "VelesPortals_handleResize iw ih (device, this) =
     (device, this\<lparr> renderer := Renderer_handleResize iw ih (renderer this) \<rparr>)"
  by (simp add: VelesPortals_handleResize_def)

lemma resize_bindgroup: "cameraBindGroup (Renderer_handleResize iw ih r) = cameraBindGroup r"
  by (simp add: Renderer_handleResize_def Let_def)

text \<open>The scene and the bind groups: what no event changes.\<close>

lemma deliver_scene:
  "faces (transparentCube (snd (deliver e s))) = faces (transparentCube (snd s))
   \<and> outerCube (transparentCube (snd (deliver e s))) = outerCube (transparentCube (snd s))
   \<and> innerCube (snd (deliver e s)) = innerCube (snd s)
   \<and> innerSphere (snd (deliver e s)) = innerSphere (snd s)
   \<and> identityBindGroup (snd (deliver e s)) = identityBindGroup (snd s)
   \<and> cameraBindGroup (renderer (snd (deliver e s))) = cameraBindGroup (renderer (snd s))"
proof (cases s)
  case (Pair device this)
  then show ?thesis
    by (cases e) (simp_all add: animate_app resize_app resize_bindgroup)
qed

lemma deliver_buffers:
  "length (buffers (fst s) RotationTransformBuffer) = 16 \<Longrightarrow>
   length (buffers (fst (deliver e s)) RotationTransformBuffer) = 16
   \<and> buffers (fst (deliver e s)) IdentityTransformBuffer = buffers (fst s) IdentityTransformBuffer
   \<and> buffers (fst (deliver e s)) CameraUniformBuffer = buffers (fst s) CameraUniformBuffer"
proof (cases s)
  case (Pair device this)
  assume "length (buffers (fst s) RotationTransformBuffer) = 16"
  with Pair show ?thesis
    by (cases e) (simp_all add: animate_buffers updateRotation_buffers resize_app length_createRotationMatrix)
qed

lemma fold_deliver_scene:
  "faces (transparentCube (snd (fold deliver es s))) = faces (transparentCube (snd s))
   \<and> outerCube (transparentCube (snd (fold deliver es s))) = outerCube (transparentCube (snd s))
   \<and> innerCube (snd (fold deliver es s)) = innerCube (snd s)
   \<and> innerSphere (snd (fold deliver es s)) = innerSphere (snd s)
   \<and> identityBindGroup (snd (fold deliver es s)) = identityBindGroup (snd s)
   \<and> cameraBindGroup (renderer (snd (fold deliver es s))) = cameraBindGroup (renderer (snd s))"
proof (induction es arbitrary: s)
  case Nil
  show ?case by simp
next
  case (Cons e es)
  show ?case using Cons.IH[of "deliver e s"] deliver_scene[of e s] by simp
qed

lemma fold_deliver_buffers:
  "length (buffers (fst s) RotationTransformBuffer) = 16 \<Longrightarrow>
   length (buffers (fst (fold deliver es s)) RotationTransformBuffer) = 16
   \<and> buffers (fst (fold deliver es s)) IdentityTransformBuffer = buffers (fst s) IdentityTransformBuffer
   \<and> buffers (fst (fold deliver es s)) CameraUniformBuffer = buffers (fst s) CameraUniformBuffer"
proof (induction es arbitrary: s)
  case Nil
  then show ?case by simp
next
  case (Cons e es)
  from deliver_buffers[OF Cons.prems, of e]
  show ?case using Cons.IH[of "deliver e s"] by simp
qed

lemma createFaces_values:
  "map stencilValue (faces (createFaces this)) = map stencilValue (faces this) @ [1, 2, 3, 4, 5, 6]"
  by (simp add: createFaces_def Let_def upt6)

lemma new_cube_faces:
  "map stencilValue (faces (snd (new_TransparentCube sz device))) = [1, 2, 3, 4, 5, 6]"
  by (simp add: new_TransparentCube_def Let_def updateRotation_cube createFaces_values)

lemma new_cube_buffer:
  "buffers (fst (new_TransparentCube sz device)) =
     (buffers device)(RotationTransformBuffer := createIdentityMatrix)"
  by (simp add: new_TransparentCube_def Let_def updateRotation_buffers createBuffer_def
      new_Float32Array_def number_ops rot0)

lemma initialize_scene:
  "map stencilValue (faces (transparentCube (snd (VelesPortals_initialize c)))) = [1, 2, 3, 4, 5, 6]
  \<and> buffers (fst (VelesPortals_initialize c)) RotationTransformBuffer = createIdentityMatrix
  \<and> buffers (fst (VelesPortals_initialize c)) IdentityTransformBuffer = createIdentityMatrix
  \<and> identityBindGroup (snd (VelesPortals_initialize c)) = BindGroup TransformBindGroupLayout IdentityTransformBuffer
  \<and> cameraBindGroup (renderer (snd (VelesPortals_initialize c))) = BindGroup CameraBindGroupLayout CameraUniformBuffer"
  by (simp add: VelesPortals_initialize_def split_beta Let_def new_cube_faces new_cube_buffer
     createBuffer_def writeBuffer_def new_Float32Array_def identity_list
     createTransformBindGroup_def Renderer_initialize_def createUniformBuffer_def)

lemma run_scene:
  "map stencilValue (faces (transparentCube (snd (run c es)))) = [1, 2, 3, 4, 5, 6]
   \<and> identityBindGroup (snd (run c es)) = BindGroup TransformBindGroupLayout IdentityTransformBuffer
   \<and> cameraBindGroup (renderer (snd (run c es))) = BindGroup CameraBindGroupLayout CameraUniformBuffer
   \<and> length (buffers (fst (run c es)) RotationTransformBuffer) = 16
   \<and> buffers (fst (run c es)) IdentityTransformBuffer = createIdentityMatrix"
proof -
  have "length (buffers (fst (VelesPortals_initialize c)) RotationTransformBuffer) = 16"
    by (simp add: initialize_scene identity_list)
  from fold_deliver_buffers[OF this, of es] show ?thesis
    by (simp add: run_def fold_deliver_scene initialize_scene)
qed

lemma length_faces_run: "length (faces (transparentCube (snd (run c es)))) = 6"
proof -
  have "length (map stencilValue (faces (transparentCube (snd (run c es))))) = 6"
    by (simp only: run_scene) simp
  then show ?thesis by simp
qed

lemma initialize_solids:
  "innerCube (snd (VelesPortals_initialize c)) =
     BoxGeometry_create (Num 0.8) (Num 0.8) (Num 0.8)
       \<lparr> x = Num 1, y = Num 0.2, z = Num 0.2, w = Num 1 \<rparr> \<lparr> x = Num 0, y = Num 0, z = Num 0 \<rparr>
   \<and> Some (innerSphere (snd (VelesPortals_initialize c))) =
     SphereGeometry_create (Num 0.6) (Num 24) (Num 18)
       \<lparr> x = Num 0.2, y = Num 0.2, z = Num 1, w = Num 1 \<rparr> \<lparr> x = Num 0, y = Num 0, z = Num 0 \<rparr>"
proof -
  obtain g where "SphereGeometry_create (Num 0.6) (Num 24) (Num 18)
       \<lparr> x = Num 0.2, y = Num 0.2, z = Num 1, w = Num 1 \<rparr> \<lparr> x = Num 0, y = Num 0, z = Num 0 \<rparr>
     = Some g"
    using inner_sphere_returns by blast
  then show ?thesis
    by (simp add: VelesPortals_initialize_def split_beta Let_def)
qed

lemma run_solids:
  "innerCube (snd (run c es)) =
     BoxGeometry_create (Num 0.8) (Num 0.8) (Num 0.8)
       \<lparr> x = Num 1, y = Num 0.2, z = Num 0.2, w = Num 1 \<rparr> \<lparr> x = Num 0, y = Num 0, z = Num 0 \<rparr>
   \<and> Some (innerSphere (snd (run c es))) =
     SphereGeometry_create (Num 0.6) (Num 24) (Num 18)
       \<lparr> x = Num 0.2, y = Num 0.2, z = Num 1, w = Num 1 \<rparr> \<lparr> x = Num 0, y = Num 0, z = Num 0 \<rparr>"
  by (simp add: run_def fold_deliver_scene initialize_solids)

lemma length_faces_new: "length (faces (snd (new_TransparentCube sz device))) = 6"
proof -
  have "length (map stencilValue (faces (snd (new_TransparentCube sz device)))) = 6"
    by (simp only: new_cube_faces) simp
  then show ?thesis by simp
qed

lemma bij_faces:
  assumes "map f xs = [1, 2, 3, 4, 5, 6::nat]"
  shows "bij_betw (\<lambda>i. f (xs ! i)) {0..<6} {1..6}"
proof -
  have "length (map f xs) = 6" by (simp only: assms) simp
  then have len: "length xs = 6" by simp
  have nth: "\<And>i. i < 6 \<Longrightarrow> f (xs ! i) = i + 1"
  proof -
    fix i :: nat assume "i < 6"
    then have "map f xs ! i = [1, 2, 3, 4, 5, 6::nat] ! i" using assms by simp
    moreover have "[1, 2, 3, 4, 5, 6::nat] ! i = i + 1"
      using \<open>i < 6\<close> by (auto simp: less_Suc_eq numeral_eq_Suc)
    ultimately show "f (xs ! i) = i + 1" using len \<open>i < 6\<close> by simp
  qed
  have "bij_betw (\<lambda>i. i + 1) {0..<6::nat} {1..6}"
    by (rule bij_betw_byWitness[where f' = "\<lambda>j. j - 1"]) auto
  moreover have "bij_betw (\<lambda>i. f (xs ! i)) {0..<6} {1..6} = bij_betw (\<lambda>i. i + 1) {0..<6::nat} {1..6}"
    by (rule bij_betw_cong) (simp add: nth)
  ultimately show ?thesis
    by simp
qed

text \<open>
  C2. After any start-up and any sequence of frames and resizes, a frame submits exactly one
  command buffer, and its draws are, in this order: one stencil-mask draw per face, in the
  order of the faces, with the face's stencil value as reference and the rotation buffer
  as transform; for \<open>i\<close> from 0 to 5 one draw with the object pipeline and reference
  \<open>i + 1\<close>, of the inner cube for even \<open>i\<close> and of the inner sphere for odd \<open>i\<close>, with the
  identity buffer as transform; one draw of the outer cube with the transparent pipeline
  and the rotation buffer. The six stencil values are 1 to 6; when the buffer is
  submitted the rotation buffer holds the frame's rotation matrix and the identity buffer
  the identity matrix.
\<close>

theorem frame_draw_order:
  "case animate time (run theCanvas events) of (device, app) \<Rightarrow>
     submitted device = submitted (fst (run theCanvas events)) @
       [map (\<lambda>face.
           (\<lparr> pipeline = Some StencilPipeline,
              stencilReference = stencilValue face,
              bindGroup0 = Some (BindGroup CameraBindGroupLayout CameraUniformBuffer),
              bindGroup1 = Some (BindGroup TransformBindGroupLayout RotationTransformBuffer),
              vertexBuffer0 = Some (vertexBuffer (geometry face)),
              vertexBuffer1 = None,
              boundIndexBuffer = Some (indexBuffer (geometry face)) \<rparr>,
            indexCount (geometry face)))
          (faces (transparentCube app))
        @ map (\<lambda>i.
           (\<lparr> pipeline = Some ObjectPipeline,
              stencilReference = i + 1,
              bindGroup0 = Some (BindGroup CameraBindGroupLayout CameraUniformBuffer),
              bindGroup1 = Some (BindGroup TransformBindGroupLayout IdentityTransformBuffer),
              vertexBuffer0 = Some (vertexBuffer (if even i then innerCube app else innerSphere app)),
              vertexBuffer1 = Some (colorBuffer (if even i then innerCube app else innerSphere app)),
              boundIndexBuffer =
                Some (indexBuffer (if even i then innerCube app else innerSphere app)) \<rparr>,
            indexCount (if even i then innerCube app else innerSphere app)))
          [0..<6]
        @ [(\<lparr> pipeline = Some TransparentPipeline,
              stencilReference = 6,
              bindGroup0 = Some (BindGroup CameraBindGroupLayout CameraUniformBuffer),
              bindGroup1 = Some (BindGroup TransformBindGroupLayout RotationTransformBuffer),
              vertexBuffer0 = Some (vertexBuffer (outerCube (transparentCube app))),
              vertexBuffer1 = Some (colorBuffer (outerCube (transparentCube app))),
              boundIndexBuffer = Some (indexBuffer (outerCube (transparentCube app))) \<rparr>,
            indexCount (outerCube (transparentCube app)))]]
     \<and> map stencilValue (faces (transparentCube app)) = [1, 2, 3, 4, 5, 6]
     \<and> buffers device RotationTransformBuffer = data (rotationMatrix (transparentCube app))
     \<and> buffers device IdentityTransformBuffer = createIdentityMatrix"
proof -
  obtain device0 app0 where s: "run theCanvas events = (device0, app0)"
    by (cases "run theCanvas events")
  have sc: "map stencilValue (faces (transparentCube app0)) = [1, 2, 3, 4, 5, 6]"
    "identityBindGroup app0 = BindGroup TransformBindGroupLayout IdentityTransformBuffer"
    "cameraBindGroup (renderer app0) = BindGroup CameraBindGroupLayout CameraUniformBuffer"
    "length (buffers device0 RotationTransformBuffer) = 16"
    "buffers device0 IdentityTransformBuffer = createIdentityMatrix"
    using run_scene[of theCanvas events] by (simp_all add: s)
  have len: "length (faces (transparentCube app0)) = 6"
    using length_faces_run[of theCanvas events] by (simp add: s)
  let ?app1 = "app0\<lparr> renderer := (renderer app0)\<lparr> cameraController :=
                orbitCamera (time / Num 1000) (cameraController (renderer app0)) \<rparr> \<rparr>"
  have an: "animate time (device0, app0) = render (time / Num 1000) (device0, ?app1)"
    by (simp add: animate_def Let_def)
  have len1: "length (faces (transparentCube ?app1)) = 6"
    using len by simp
  have sub: "submitted (fst (animate time (device0, app0))) = submitted device0 @ [
      map (\<lambda>face.
           (\<lparr> pipeline = Some StencilPipeline,
              stencilReference = stencilValue face,
              bindGroup0 = Some (BindGroup CameraBindGroupLayout CameraUniformBuffer),
              bindGroup1 = Some (BindGroup TransformBindGroupLayout RotationTransformBuffer),
              vertexBuffer0 = Some (vertexBuffer (geometry face)),
              vertexBuffer1 = None,
              boundIndexBuffer = Some (indexBuffer (geometry face)) \<rparr>,
            indexCount (geometry face)))
          (faces (transparentCube app0))
        @ map (\<lambda>i.
           (\<lparr> pipeline = Some ObjectPipeline,
              stencilReference = i + 1,
              bindGroup0 = Some (BindGroup CameraBindGroupLayout CameraUniformBuffer),
              bindGroup1 = Some (BindGroup TransformBindGroupLayout IdentityTransformBuffer),
              vertexBuffer0 = Some (vertexBuffer (if even i then innerCube app0 else innerSphere app0)),
              vertexBuffer1 = Some (colorBuffer (if even i then innerCube app0 else innerSphere app0)),
              boundIndexBuffer =
                Some (indexBuffer (if even i then innerCube app0 else innerSphere app0)) \<rparr>,
            indexCount (if even i then innerCube app0 else innerSphere app0)))
          [0..<6]
        @ [(\<lparr> pipeline = Some TransparentPipeline,
              stencilReference = 6,
              bindGroup0 = Some (BindGroup CameraBindGroupLayout CameraUniformBuffer),
              bindGroup1 = Some (BindGroup TransformBindGroupLayout RotationTransformBuffer),
              vertexBuffer0 = Some (vertexBuffer (outerCube (transparentCube app0))),
              vertexBuffer1 = Some (colorBuffer (outerCube (transparentCube app0))),
              boundIndexBuffer = Some (indexBuffer (outerCube (transparentCube app0))) \<rparr>,
            indexCount (outerCube (transparentCube app0)))]]"
    unfolding an render_draws[OF len1] using sc(2,3) by simp
  have bufs: "buffers (fst (animate time (device0, app0))) RotationTransformBuffer
      = data (rotationMatrix (transparentCube (snd (animate time (device0, app0)))))"
    "buffers (fst (animate time (device0, app0))) IdentityTransformBuffer = createIdentityMatrix"
    using sc(4,5) by (simp_all add: animate_buffers updateRotation_buffers animate_app)
  show ?thesis
    using sub bufs sc(1) by (simp add: s split_beta animate_app)
qed

text \<open>
  C3. The constructor of \<^verbatim>\<open>TransparentCube\<close> creates exactly six faces; the face at index
  \<open>i\<close> has stencil value \<open>i + 1\<close>, so the values are distinct and are exactly 1 to 6, a
  bijection from the six indices. In every frame the object draw for face index \<open>i\<close> (the
  draws 6 to 11 of the pass) has that face's stencil value as reference and draws the
  buffers of the inner cube, a box, when \<open>i\<close> is even and those of the inner sphere when
  \<open>i\<close> is odd.
\<close>

theorem six_faces_bijection:
  "(let cube = snd (new_TransparentCube sz device) in
      length (faces cube) = 6
      \<and> map stencilValue (faces cube) = map (\<lambda>i. i + 1) [0..<6]
      \<and> distinct (map stencilValue (faces cube))
      \<and> set (map stencilValue (faces cube)) = {1..6}
      \<and> bij_betw (\<lambda>i. stencilValue (faces cube ! i)) {0..<6} {1..6})
   \<and> (case animate time (run theCanvas events) of (device', app) \<Rightarrow>
        map (\<lambda>d. (stencilReference (fst d), vertexBuffer0 (fst d), vertexBuffer1 (fst d),
                   boundIndexBuffer (fst d), snd d))
          (take 6 (drop 6 (last (submitted device'))))
        = map (\<lambda>i. let solid = (if even i then innerCube app else innerSphere app)
                    in (stencilValue (faces (transparentCube app) ! i),
                        Some (vertexBuffer solid), Some (colorBuffer solid),
                        Some (indexBuffer solid), indexCount solid))
            [0..<6]
        \<and> innerCube app =
            BoxGeometry_create (Num 0.8) (Num 0.8) (Num 0.8)
              \<lparr> x = Num 1, y = Num 0.2, z = Num 0.2, w = Num 1 \<rparr>
              \<lparr> x = Num 0, y = Num 0, z = Num 0 \<rparr>
        \<and> Some (innerSphere app) =
            SphereGeometry_create (Num 0.6) (Num 24) (Num 18)
              \<lparr> x = Num 0.2, y = Num 0.2, z = Num 1, w = Num 1 \<rparr>
              \<lparr> x = Num 0, y = Num 0, z = Num 0 \<rparr>)"
proof -
  let ?cube = "snd (new_TransparentCube sz device)"
  have vals: "map stencilValue (faces ?cube) = [1, 2, 3, 4, 5, 6]"
    by (rule new_cube_faces)
  have part1: "length (faces ?cube) = 6
      \<and> map stencilValue (faces ?cube) = map (\<lambda>i. i + 1) [0..<6]
      \<and> distinct (map stencilValue (faces ?cube))
      \<and> set (map stencilValue (faces ?cube)) = {1..6}
      \<and> bij_betw (\<lambda>i. stencilValue (faces ?cube ! i)) {0..<6} {1..6}"
  proof -
    have "set (map stencilValue (faces ?cube)) = {1..6}"
      unfolding vals by auto
    moreover have "map stencilValue (faces ?cube) = map (\<lambda>i. i + 1) [0..<6]"
      unfolding vals by (simp add: upt6)
    moreover have "distinct (map stencilValue (faces ?cube))"
      unfolding vals by simp
    ultimately show ?thesis
      using bij_faces[OF vals] length_faces_new[of sz device] by blast
  qed
  obtain device0 app0 where s: "run theCanvas events = (device0, app0)"
    by (cases "run theCanvas events")
  have sc: "map stencilValue (faces (transparentCube app0)) = [1, 2, 3, 4, 5, 6]"
    using run_scene[of theCanvas events] by (simp add: s)
  have solids: "innerCube app0 =
            BoxGeometry_create (Num 0.8) (Num 0.8) (Num 0.8)
              \<lparr> x = Num 1, y = Num 0.2, z = Num 0.2, w = Num 1 \<rparr>
              \<lparr> x = Num 0, y = Num 0, z = Num 0 \<rparr>"
     "Some (innerSphere app0) =
            SphereGeometry_create (Num 0.6) (Num 24) (Num 18)
              \<lparr> x = Num 0.2, y = Num 0.2, z = Num 1, w = Num 1 \<rparr>
              \<lparr> x = Num 0, y = Num 0, z = Num 0 \<rparr>"
    using run_solids[of theCanvas events] by (simp_all add: s)
  have len: "length (faces (transparentCube app0)) = 6"
    using length_faces_run[of theCanvas events] by (simp add: s)
  then obtain a b c d e f where fs: "faces (transparentCube app0) = [a, b, c, d, e, f]"
    using length6 by blast
  let ?app1 = "app0\<lparr> renderer := (renderer app0)\<lparr> cameraController :=
                orbitCamera (time / Num 1000) (cameraController (renderer app0)) \<rparr> \<rparr>"
  have an: "animate time (device0, app0) = render (time / Num 1000) (device0, ?app1)"
    by (simp add: animate_def Let_def)
  have len1: "length (faces (transparentCube ?app1)) = 6"
    using len by simp
  let ?dev2 = "fst (animate time (device0, app0))"
  let ?app2 = "snd (animate time (device0, app0))"
  have same: "innerCube ?app2 = innerCube app0" "innerSphere ?app2 = innerSphere app0"
    "faces (transparentCube ?app2) = faces (transparentCube app0)"
    by (simp_all add: animate_app)
  have part2: "map (\<lambda>d. (stencilReference (fst d), vertexBuffer0 (fst d), vertexBuffer1 (fst d),
                   boundIndexBuffer (fst d), snd d))
          (take 6 (drop 6 (last (submitted ?dev2))))
        = map (\<lambda>i. let solid = (if even i then innerCube ?app2 else innerSphere ?app2)
                    in (stencilValue (faces (transparentCube ?app2) ! i),
                        Some (vertexBuffer solid), Some (colorBuffer solid),
                        Some (indexBuffer solid), indexCount solid))
            [0..<6]"
    unfolding same unfolding an render_draws[OF len1] using sc by (simp add: fs upt6 Let_def)
  have cubeSolid: "innerCube ?app2 =
            BoxGeometry_create (Num 0.8) (Num 0.8) (Num 0.8)
              \<lparr> x = Num 1, y = Num 0.2, z = Num 0.2, w = Num 1 \<rparr>
              \<lparr> x = Num 0, y = Num 0, z = Num 0 \<rparr>"
    unfolding same by (rule solids)
  have sphereSolid: "Some (innerSphere ?app2) =
            SphereGeometry_create (Num 0.6) (Num 24) (Num 18)
              \<lparr> x = Num 0.2, y = Num 0.2, z = Num 1, w = Num 1 \<rparr>
              \<lparr> x = Num 0, y = Num 0, z = Num 0 \<rparr>"
    unfolding same by (rule solids)
  have g1: "let cube = snd (new_TransparentCube sz device) in
      length (faces cube) = 6
      \<and> map stencilValue (faces cube) = map (\<lambda>i. i + 1) [0..<6]
      \<and> distinct (map stencilValue (faces cube))
      \<and> set (map stencilValue (faces cube)) = {1..6}
      \<and> bij_betw (\<lambda>i. stencilValue (faces cube ! i)) {0..<6} {1..6}"
    unfolding Let_def by (rule part1)
  show ?thesis
    unfolding s case_prod_beta
    by (rule conjI[OF g1 conjI[OF part2 conjI[OF cubeSolid sphereSolid]]])
qed

section \<open>The camera uniform buffer\<close>

lemma length_createViewMatrix: "length (createViewMatrix p t u) = 16"
  by (simp add: createViewMatrix_def Let_def new_Float32Array_def)

lemma length_createProjectionMatrix: "length (createProjectionMatrix fov aspect n f) = 16"
  by (simp add: createProjectionMatrix_def Let_def new_Float32Array_def)

lemma view_nth6:
  "createViewMatrix p t u ! 6 =
     y (normalizeVector \<lparr> x = x p - x t, y = y p - y t, z = z p - z t \<rparr>)"
  by (simp add: createViewMatrix_def Let_def new_Float32Array_def replicate16)

lemma initialize_camera:
  "buffers (fst (VelesPortals_initialize c)) CameraUniformBuffer =
     createViewMatrix \<lparr> x = Num 0, y = Num 0, z = Num 5 \<rparr> \<lparr> x = Num 0, y = Num 0, z = Num 0 \<rparr> default_up
     @ createProjectionMatrix ((Num 45 * Math_PI) / Num 180)
         (Num (real (width c)) / Num (real (height c))) (Num 0.1) (Num 100)
   \<and> cameraController (renderer (snd (VelesPortals_initialize c))) =
       new_CameraController \<lparr> x = Num 0, y = Num 0, z = Num 5 \<rparr> c
   \<and> canvas (renderer (snd (VelesPortals_initialize c))) = c"
  by (simp add: VelesPortals_initialize_def split_beta Let_def Renderer_initialize_def
      createUniformBuffer_def updateUniformBuffer_def new_CameraController_def
      updateViewMatrix_def updateProjectionMatrix_def createBuffer_def writeBuffer_def
      new_Float32Array_def length_createViewMatrix length_createProjectionMatrix
      new_TransparentCube_def updateRotation_buffers)

lemma initial_buffer_synced:
  "buffers (fst (VelesPortals_initialize c)) CameraUniformBuffer
     = data (viewMatrix (camera (cameraController (renderer (snd (VelesPortals_initialize c))))))
       @ data (projectionMatrix
           (camera (cameraController (renderer (snd (VelesPortals_initialize c))))))"
  by (simp add: initialize_camera new_CameraController_def updateViewMatrix_def
      updateProjectionMatrix_def Let_def)

lemma run_camera_buffer:
  "buffers (fst (run c es)) CameraUniformBuffer = buffers (fst (VelesPortals_initialize c)) CameraUniformBuffer"
proof -
  have "length (buffers (fst (VelesPortals_initialize c)) RotationTransformBuffer) = 16"
    by (simp add: initialize_scene identity_list)
  from fold_deliver_buffers[OF this, of es] show ?thesis
    by (simp add: run_def)
qed

lemma initial_view6:
  "createViewMatrix \<lparr> x = Num 0, y = Num 0, z = Num 5 \<rparr> \<lparr> x = Num 0, y = Num 0, z = Num 0 \<rparr> default_up ! 6 = Num 0"
  by (simp add: view_nth6 normalizeVector_def Let_def number_ops strict_eq_def)

lemma orbit_view6:
  "\<exists>v. v \<noteq> 0 \<and> data (viewMatrix (camera (orbitCamera (Num t) cc))) ! 6 = Num v"
proof -
  let ?s = "sin (t * (2 / 10)) * 5" and ?c = "cos (t * (2 / 10)) * 5"
  have pos: "0 < ?s * ?s + (15 / 10) * (15 / 10) + ?c * ?c"
    by (intro add_nonneg_pos add_pos_nonneg) simp_all
  then have nz: "sqrt (?s * ?s + (15 / 10) * (15 / 10) + ?c * ?c) \<noteq> 0" "\<not> ?s * ?s + (15 / 10) * (15 / 10) + ?c * ?c < 0"
    by simp_all
  show ?thesis
    using nz
    by (simp add: orbitCamera_def updateViewMatrix_def Let_def view_nth6 normalizeVector_def
        number_ops strict_eq_def)
qed

lemma resize_projection0:
  "data (projectionMatrix (camera (cameraController (Renderer_handleResize iw ih r)))) ! 0 =
     (Num 1 / Math_tan ((Num 45 * Math_PI) / Num 180 / Num 2)) / (Num (real iw) / Num (real ih))"
  by (simp add: Renderer_handleResize_def Let_def CameraController_handleResize_def
      updateProjectionMatrix_def proj_nth0)

text \<open>
  C1. The claim asks that the camera uniform buffer be written again whenever the view or
  the projection matrix changes. The program writes it once, in \<^verbatim>\<open>createUniformBuffer\<close>
  at start-up, when it does hold the view matrix in its first 16 floats and the
  projection matrix in its last 16; no event writes it afterwards, so that after any
  events it holds what start-up left. Started on an 800 by 600 canvas, after one frame
  at any finite time the first 16 floats of the buffer are not the camera's view matrix
  (element 6 is still 0, the camera's is not), and after a resize to 1600 by 600 the
  last 16 floats are not the camera's projection matrix (element 0 differs).
\<close>

theorem camera_buffer_never_rewritten:
  "(case run \<lparr> width = 800, height = 600 \<rparr> [Frame (Num t)] of (device, app) \<Rightarrow>
      take 16 (buffers device CameraUniformBuffer)
        \<noteq> data (viewMatrix (camera (cameraController (renderer app)))))
   \<and> (case run \<lparr> width = 800, height = 600 \<rparr> [Resize 1600 600] of (device, app) \<Rightarrow>
      drop 16 (buffers device CameraUniformBuffer)
        \<noteq> data (projectionMatrix (camera (cameraController (renderer app)))))
   \<and> buffers (fst (run c events)) CameraUniformBuffer
       = buffers (fst (VelesPortals_initialize c)) CameraUniformBuffer
   \<and> buffers (fst (VelesPortals_initialize c)) CameraUniformBuffer
       = data (viewMatrix (camera (cameraController (renderer (snd (VelesPortals_initialize c))))))
         @ data (projectionMatrix
             (camera (cameraController (renderer (snd (VelesPortals_initialize c))))))"
proof -
  let ?c = "\<lparr> width = 800, height = 600 \<rparr>"
  let ?init = "VelesPortals_initialize ?c"
  obtain device0 app0 where i: "?init = (device0, app0)" by (cases ?init)
  have buf0: "buffers device0 CameraUniformBuffer =
     createViewMatrix \<lparr> x = Num 0, y = Num 0, z = Num 5 \<rparr> \<lparr> x = Num 0, y = Num 0, z = Num 0 \<rparr> default_up
     @ createProjectionMatrix ((Num 45 * Math_PI) / Num 180)
         (Num (real (width ?c)) / Num (real (height ?c))) (Num 0.1) (Num 100)"
    using initialize_camera[of ?c] by (simp add: i)
  let ?f = "run ?c [Frame (Num t)]"
  have fbuf: "buffers (fst ?f) CameraUniformBuffer = buffers device0 CameraUniformBuffer"
    using run_camera_buffer[of ?c "[Frame (Num t)]"] by (simp add: i)
  have "take 16 (buffers (fst ?f) CameraUniformBuffer) ! 6 = Num 0"
    unfolding fbuf buf0 by (simp add: length_createViewMatrix initial_view6)
  moreover obtain v where "v \<noteq> 0"
      "data (viewMatrix (camera (orbitCamera (Num t / Num 1000) (cameraController (renderer app0))))) ! 6 = Num v"
    using orbit_view6[of "t / 1000" "cameraController (renderer app0)"] by (auto simp: number_ops)
  then have "data (viewMatrix (camera (cameraController (renderer (snd ?f))))) ! 6 \<noteq> Num 0"
    by (simp add: run_def i animate_app)
  ultimately have frame: "take 16 (buffers (fst ?f) CameraUniformBuffer)
        \<noteq> data (viewMatrix (camera (cameraController (renderer (snd ?f)))))"
    by metis
  let ?r = "run ?c [Resize 1600 600]"
  obtain f where f: "f \<noteq> 0" "Num 1 / Math_tan ((Num 45 * Math_PI) / Num 180 / Num 2) = Num f"
    using focal_finite by blast
  note f' = f(2)[unfolded number_ops]
  have rbuf: "buffers (fst ?r) CameraUniformBuffer = buffers device0 CameraUniformBuffer"
    using run_camera_buffer[of ?c "[Resize 1600 600]"] by (simp add: i)
  have "drop 16 (buffers (fst ?r) CameraUniformBuffer) ! 0 = Num (f / (800 / 600))"
    unfolding rbuf buf0 by (simp add: length_createViewMatrix proj_nth0 f' number_ops)
  moreover have "data (projectionMatrix (camera (cameraController (renderer (snd ?r))))) ! 0
      = Num (f / (1600 / 600))"
    by (simp add: run_def i resize_app resize_projection0 f' number_ops)
  moreover have "f / (800 / 600) \<noteq> f / (1600 / 600)"
    using f(1) by simp
  ultimately have resize: "drop 16 (buffers (fst ?r) CameraUniformBuffer)
        \<noteq> data (projectionMatrix (camera (cameraController (renderer (snd ?r)))))"
    by (metis number.inject)
  show ?thesis
    unfolding case_prod_beta
    by (rule conjI[OF frame conjI[OF resize conjI[OF run_camera_buffer initial_buffer_synced]]])
qed

end
